theory Spec2Isabelle
  imports Main "HOL-Library.Word"
begin

unbundle bit_operations_syntax

section \<open>Machine types\<close>

type_synonym u8 = "8 word"
type_synonym u32 = "32 word"
type_synonym u64 = "64 word"

section \<open>VM-exit dispatch: CPUID emulation (src/vmm/vmexit.c)\<close>

text \<open>
  \<^verbatim>\<open>cpuid_result_t\<close> of \<^verbatim>\<open>arch/x86_64/cpu.h\<close> and the four general purpose
  registers of \<^verbatim>\<open>guest_regs_t\<close> that \<^verbatim>\<open>handle_cpuid\<close> touches. The physical
  CPUID instruction is hardware: it is a parameter \<open>hw\<close> from (leaf, subleaf) to a result.
  The header with the VMCS field encodings is not part of the sources, so the two fields
  that \<^verbatim>\<open>advance_guest_rip\<close> uses are the constructors of a datatype, and the VMCS is a
  function from fields to 64-bit values.
\<close>

record cpuid_result_t =
  eax :: u32
  ebx :: u32
  ecx :: u32
  edx :: u32

record guest_regs_t =
  rax :: u64
  rbx :: u64
  rcx :: u64
  rdx :: u64

datatype vmcs_field = VMCS_GUEST_RIP | VMCS_EXIT_INSTR_LENGTH

record vcpu_t =
  regs :: guest_regs_t
  vmcs :: "vmcs_field \<Rightarrow> u64"

definition CPUID_FEAT_ECX_VMX :: u64 where
  "CPUID_FEAT_ECX_VMX = push_bit 5 1"

definition advance_guest_rip :: "vcpu_t \<Rightarrow> vcpu_t" where
  "advance_guest_rip vcpu =
     (let rip = vmcs vcpu VMCS_GUEST_RIP;
          instr_len = vmcs vcpu VMCS_EXIT_INSTR_LENGTH
      in vcpu\<lparr>vmcs := (vmcs vcpu)(VMCS_GUEST_RIP := rip + instr_len)\<rparr>)"

text \<open>
  The leaf-1 masks: \<^verbatim>\<open>result.ecx &= ~CPUID_FEAT_ECX_VMX\<close> is computed in 64 bits
  (the macro is \<^verbatim>\<open>1ULL << 5\<close>) and stored back into the 32-bit field;
  \<^verbatim>\<open>result.ecx &= ~(1 << 31)\<close> is a 32-bit mask.
\<close>

definition mask_leaf1 :: "cpuid_result_t \<Rightarrow> cpuid_result_t" where
  "mask_leaf1 r =
     (let r1 = r\<lparr>ecx := ucast ((ucast (ecx r) :: u64) AND NOT CPUID_FEAT_ECX_VMX)\<rparr>
      in r1\<lparr>ecx := ecx r1 AND NOT (push_bit 31 1)\<rparr>)"

definition handle_cpuid :: "(u32 \<Rightarrow> u32 \<Rightarrow> cpuid_result_t) \<Rightarrow> vcpu_t \<Rightarrow> vcpu_t \<times> int" where
  "handle_cpuid hw vcpu =
     (let a = (ucast (rax (regs vcpu)) :: u32);
          c = (ucast (rcx (regs vcpu)) :: u32);
          result = hw a c;
          result' =
            (if a = 1 then mask_leaf1 result
             else if a = 0x40000000 then
               result\<lparr>eax := 0x40000001, ebx := 0x65727550, ecx := 0x6F736956, edx := 0x00000072\<rparr>
             else if a = 0x40000001 then
               result\<lparr>eax := 0, ebx := 0, ecx := 0, edx := 0\<rparr>
             else result);
          vcpu' = vcpu\<lparr>regs := (regs vcpu)\<lparr>rax := ucast (eax result'), rbx := ucast (ebx result'),
                                              rcx := ucast (ecx result'), rdx := ucast (edx result')\<rparr>\<rparr>
      in (advance_guest_rip vcpu', 0))"

text \<open>The four bytes of a 32-bit register, lowest first, read as ASCII characters.\<close>

definition reg_chars :: "u32 \<Rightarrow> string" where
  "reg_chars w = map (\<lambda>i. char_of (unat (drop_bit (8 * i) w))) [0, 1, 2, 3]"


section \<open>Physical memory manager (src/mm/pmm.c)\<close>

text \<open>
  The buddy allocator keeps its free blocks in intrusive doubly linked lists: the links
  are fields of the page descriptors. The model keeps them so: a pointer to a descriptor
  is its index in \<^verbatim>\<open>page_array\<close> (the page-frame number), \<^verbatim>\<open>NULL\<close> is \<open>None\<close>,
  and the descriptor array is a function from indices to descriptors, with
  \<^verbatim>\<open>page_count\<close> kept beside it as in the source. The three zones and the twelve
  free lists of a zone are functions from their index. The spinlock is taken and released
  inside each operation; a sequential model starts and ends every operation with the lock
  free, so it is not part of the state.
\<close>

definition PMM_MAX_ORDER :: nat where "PMM_MAX_ORDER = 11"
definition PAGE_SIZE :: nat where "PAGE_SIZE = 4096"

definition ZONE_DMA :: nat where "ZONE_DMA = 0"
definition ZONE_NORMAL :: nat where "ZONE_NORMAL = 1"
definition ZONE_HIGH :: nat where "ZONE_HIGH = 2"

definition PAGE_FLAG_PRESENT :: u32 where "PAGE_FLAG_PRESENT = 1"
definition PAGE_FLAG_FREE :: u32 where "PAGE_FLAG_FREE = 2"
definition PAGE_FLAG_KERNEL :: u32 where "PAGE_FLAG_KERNEL = 4"
definition PAGE_FLAG_RESERVED :: u32 where "PAGE_FLAG_RESERVED = 16"

record page_t =
  flags :: u32
  order :: u32
  refcount :: u32
  "next" :: "nat option"
  prev :: "nat option"

record free_list_t =
  head :: "nat option"
  count :: u64

record zone_t =
  total_pages :: u64
  free_pages :: u64
  free_lists :: "nat \<Rightarrow> free_list_t"

record pmm_stats_t =
  total_memory :: u64
  free_memory :: u64
  used_memory :: u64
  reserved_memory :: u64
  kernel_memory :: u64
  stat_page_count :: u64
  alloc_count :: u64
  free_count :: u64

record pmm_state =
  zones :: "nat \<Rightarrow> zone_t"
  page_array :: "nat \<Rightarrow> page_t"
  page_count :: u64
  pmm_stats :: pmm_stats_t

definition get_zone :: "u64 \<Rightarrow> nat" where
  "get_zone addr =
     (if addr < 16 * 1024 * 1024 then ZONE_DMA
      else if addr < 4 * 1024 * 1024 * 1024 then ZONE_NORMAL
      else ZONE_HIGH)"

definition free_list_add :: "pmm_state \<Rightarrow> nat \<Rightarrow> nat \<Rightarrow> nat \<Rightarrow> pmm_state" where
  "free_list_add s z page ord =
     (let zone = zones s z;
          lst = free_lists zone ord;
          pa1 = (page_array s)(page := (page_array s page)
                   \<lparr>flags := PAGE_FLAG_FREE, order := of_nat ord, next := head lst, prev := None\<rparr>);
          pa2 = (case head lst of None \<Rightarrow> pa1
                 | Some h \<Rightarrow> pa1(h := (pa1 h)\<lparr>prev := Some page\<rparr>));
          lst' = lst\<lparr>head := Some page, count := count lst + 1\<rparr>;
          zone' = zone\<lparr>free_lists := (free_lists zone)(ord := lst'),
                       free_pages := free_pages zone + push_bit ord 1\<rparr>
      in s\<lparr>zones := (zones s)(z := zone'), page_array := pa2\<rparr>)"

definition free_list_remove :: "pmm_state \<Rightarrow> nat \<Rightarrow> nat \<Rightarrow> nat \<Rightarrow> pmm_state" where
  "free_list_remove s z page ord =
     (let zone = zones s z;
          lst = free_lists zone ord;
          pa = page_array s;
          pa1 = (case prev (pa page) of Some q \<Rightarrow> pa(q := (pa q)\<lparr>next := next (pa page)\<rparr>)
                 | None \<Rightarrow> pa);
          hd' = (case prev (pa page) of Some q \<Rightarrow> head lst | None \<Rightarrow> next (pa page));
          pa2 = (case next (pa1 page) of Some n \<Rightarrow> pa1(n := (pa1 n)\<lparr>prev := prev (pa1 page)\<rparr>)
                 | None \<Rightarrow> pa1);
          pa3 = pa2(page := (pa2 page)\<lparr>next := None, prev := None\<rparr>);
          lst' = lst\<lparr>head := hd', count := count lst - 1\<rparr>;
          zone' = zone\<lparr>free_lists := (free_lists zone)(ord := lst'),
                       free_pages := free_pages zone - push_bit ord 1\<rparr>
      in s\<lparr>zones := (zones s)(z := zone'), page_array := pa3\<rparr>)"

definition get_buddy :: "pmm_state \<Rightarrow> nat \<Rightarrow> nat \<Rightarrow> nat option" where
  "get_buddy s page ord =
     (let buddy_pfn = page XOR push_bit ord 1
      in if of_nat buddy_pfn \<ge> page_count s then None else Some buddy_pfn)"

function split_block :: "pmm_state \<Rightarrow> nat \<Rightarrow> nat \<Rightarrow> nat \<Rightarrow> nat \<Rightarrow> pmm_state" where
  "split_block s z page cur target =
     (if cur > target
      then split_block (free_list_add s z (page + 2 ^ (cur - 1)) (cur - 1)) z page (cur - 1) target
      else s)"
  by pat_completeness auto
termination
  by (relation "measure (\<lambda>(s, z, page, cur, target). cur)") auto

declare split_block.simps [simp del]

function coalesce_buddies :: "pmm_state \<Rightarrow> nat \<Rightarrow> nat \<Rightarrow> nat \<Rightarrow> pmm_state" where
  "coalesce_buddies s z page ord =
     (if ord < PMM_MAX_ORDER then
        (case get_buddy s page ord of
           None \<Rightarrow> free_list_add s z page ord
         | Some buddy \<Rightarrow>
             if flags (page_array s buddy) AND PAGE_FLAG_FREE = 0
                \<or> order (page_array s buddy) \<noteq> of_nat ord
             then free_list_add s z page ord
             else coalesce_buddies (free_list_remove s z buddy ord) z
                    (if buddy < page then buddy else page) (ord + 1))
      else free_list_add s z page ord)"
  by pat_completeness auto
termination
  by (relation "measure (\<lambda>(s, z, page, ord). PMM_MAX_ORDER - ord)") auto

declare coalesce_buddies.simps [simp del]

text \<open>
  The inner loop of \<^verbatim>\<open>pmm_alloc_pages\<close>: the first order from \<open>o\<close> up to
  \<^verbatim>\<open>PMM_MAX_ORDER\<close> whose list of zone \<open>z\<close> has a head.
\<close>

function find_order :: "pmm_state \<Rightarrow> nat \<Rightarrow> nat \<Rightarrow> nat option" where
  "find_order s z ord =
     (if ord \<le> PMM_MAX_ORDER then
        (if head (free_lists (zones s z) ord) \<noteq> None then Some ord
         else find_order s z (ord + 1))
      else None)"
  by pat_completeness auto
termination
  by (relation "measure (\<lambda>(s, z, ord). Suc PMM_MAX_ORDER - ord)") auto

declare find_order.simps [simp del]

definition alloc_from :: "pmm_state \<Rightarrow> nat \<Rightarrow> nat \<Rightarrow> nat \<Rightarrow> pmm_state \<times> u64" where
  "alloc_from s z ord from_ord =
     (let page = the (head (free_lists (zones s z) from_ord));
          s1 = free_list_remove s z page from_ord;
          s2 = (if from_ord > ord then split_block s1 z page from_ord ord else s1);
          s3 = s2\<lparr>page_array := (page_array s2)(page := (page_array s2 page)
                  \<lparr>flags := PAGE_FLAG_PRESENT OR PAGE_FLAG_KERNEL, order := of_nat ord,
                   refcount := 1\<rparr>)\<rparr>;
          st = pmm_stats s3;
          s4 = s3\<lparr>pmm_stats := st\<lparr>alloc_count := alloc_count st + 1,
                    free_memory := free_memory st - push_bit ord 1 * of_nat PAGE_SIZE,
                    used_memory := used_memory st + push_bit ord 1 * of_nat PAGE_SIZE\<rparr>\<rparr>
      in (s4, of_nat page * of_nat PAGE_SIZE))"

definition pmm_alloc_pages :: "pmm_state \<Rightarrow> u32 \<Rightarrow> pmm_state \<times> u64" where
  "pmm_alloc_pages s ord32 =
     (if unat ord32 > PMM_MAX_ORDER then (s, 0)
      else
        (case find_order s ZONE_NORMAL (unat ord32) of
           Some from_ord \<Rightarrow> alloc_from s ZONE_NORMAL (unat ord32) from_ord
         | None \<Rightarrow>
            (case find_order s ZONE_DMA (unat ord32) of
               Some from_ord \<Rightarrow> alloc_from s ZONE_DMA (unat ord32) from_ord
             | None \<Rightarrow> (s, 0))))"

definition pmm_free_pages :: "pmm_state \<Rightarrow> u64 \<Rightarrow> u32 \<Rightarrow> pmm_state" where
  "pmm_free_pages s addr ord32 =
     (if addr = 0 \<or> unat ord32 > PMM_MAX_ORDER then s
      else
        let pfn = addr div of_nat PAGE_SIZE in
        if pfn \<ge> page_count s then s
        else if flags (page_array s (unat pfn)) AND PAGE_FLAG_FREE \<noteq> 0 then s
        else
          let z = get_zone addr;
              st = pmm_stats s;
              s1 = s\<lparr>pmm_stats := st\<lparr>free_count := free_count st + 1,
                     free_memory := free_memory st + push_bit (unat ord32) 1 * of_nat PAGE_SIZE,
                     used_memory := used_memory st - push_bit (unat ord32) 1 * of_nat PAGE_SIZE\<rparr>\<rparr>
          in coalesce_buddies s1 z (unat pfn) (unat ord32))"

definition pmm_get_free_pages :: "pmm_state \<Rightarrow> u64" where
  "pmm_get_free_pages s =
     free_pages (zones s ZONE_DMA) + free_pages (zones s ZONE_NORMAL) + free_pages (zones s ZONE_HIGH)"


text \<open>
  A small allocator state for the concrete checks: eight page frames in the DMA zone,
  frame 0 reserved, and the other seven free as one block of each order 0, 1 and 2
  (frames 1, 2..3 and 4..7).
\<close>

definition demo_page :: "u32 \<Rightarrow> nat \<Rightarrow> page_t" where
  "demo_page f ord = \<lparr>flags = f, order = of_nat ord, refcount = 0, next = None, prev = None\<rparr>"

definition demo_list :: "nat option \<Rightarrow> free_list_t" where
  "demo_list h = \<lparr>head = h, count = (if h = None then 0 else 1)\<rparr>"

definition pmm_demo :: pmm_state where
  "pmm_demo =
     \<lparr>zones = (\<lambda>z. if z = 0
                 then \<lparr>total_pages = 0, free_pages = 7,
                       free_lists = (\<lambda>ord. if ord = 0 then demo_list (Some 1)
                                     else if ord = 1 then demo_list (Some 2)
                                     else if ord = 2 then demo_list (Some 4)
                                     else demo_list None)\<rparr>
                 else \<lparr>total_pages = 0, free_pages = 0, free_lists = (\<lambda>ord. demo_list None)\<rparr>),
      page_array = (\<lambda>i. if i = 1 then demo_page PAGE_FLAG_FREE 0
                     else if i = 2 then demo_page PAGE_FLAG_FREE 1
                     else if i = 4 then demo_page PAGE_FLAG_FREE 2
                     else demo_page PAGE_FLAG_RESERVED 0),
      page_count = 8,
      pmm_stats = \<lparr>total_memory = 32768, free_memory = 28672, used_memory = 0,
                   reserved_memory = 4096, kernel_memory = 4096, stat_page_count = 8,
                   alloc_count = 0, free_count = 0\<rparr>\<rparr>"


text \<open>
  A run on that state: five single-page allocations (they return the frames 1 to 5),
  then frame 4 and frame 5 are given back, and then frame 5 is given back a second time.
\<close>

primrec pmm_demo_alloc :: "nat \<Rightarrow> pmm_state" where
  "pmm_demo_alloc 0 = pmm_demo"
| "pmm_demo_alloc (Suc n) = fst (pmm_alloc_pages (pmm_demo_alloc n) 0)"

definition pmm_demo_freed :: pmm_state where
  "pmm_demo_freed = pmm_free_pages (pmm_free_pages (pmm_demo_alloc 5) 0x4000 0) 0x5000 0"

definition pmm_demo_freed_twice :: pmm_state where
  "pmm_demo_freed_twice = pmm_free_pages pmm_demo_freed 0x5000 0"


section \<open>Cluster scheduler: node scoring (src/cluster/scheduler.c)\<close>

text \<open>
  The fields of \<^verbatim>\<open>cluster_node_t\<close>, \<^verbatim>\<open>sched_request_t\<close>, \<^verbatim>\<open>scheduler_t\<close> and
  \<^verbatim>\<open>node_score_t\<close> that filtering and scoring read or write. A pointer to a node is
  represented by the node's \<open>id\<close> (node creation hands out increasing ids), so
  \<^verbatim>\<open>aff_vm->host_node == node\<close> compares ids. The fixed-size string arrays with
  their counts are lists; the text written to the reason buffer is not modelled.
\<close>

definition NODE_STATE_ONLINE :: u32 where "NODE_STATE_ONLINE = 2"
definition SCHED_POLICY_SPREAD :: u32 where "SCHED_POLICY_SPREAD = 0"
definition SCHED_POLICY_PACK :: u32 where "SCHED_POLICY_PACK = 1"
definition WEIGHT_CPU :: u32 where "WEIGHT_CPU = 40"
definition WEIGHT_MEMORY :: u32 where "WEIGHT_MEMORY = 40"
definition WEIGHT_STORAGE :: u32 where "WEIGHT_STORAGE = 10"
definition WEIGHT_NETWORK :: u32 where "WEIGHT_NETWORK = 10"

record cluster_node_t =
  node_id :: u32
  node_name :: string
  node_state :: u32
  cpu_total_threads :: u32
  memory_total_bytes :: u64
  memory_free_bytes :: u64
  memory_used_bytes :: u64
  storage_total_bytes :: u64
  storage_free_bytes :: u64
  health_score :: u32
  network_healthy :: bool
  tags :: "string list"
  vm_count :: u32

record virtual_machine_t =
  vm_id :: u32
  host_node :: "u32 option"

record sched_request_t =
  vcpus :: u32
  memory :: u64
  policy :: u32
  required_tags :: "string list"
  forbidden_nodes :: "string list"
  affinity_vm_ids :: "u32 list"
  anti_affinity_vm_ids :: "u32 list"

record scheduler_t =
  vm_manager :: "virtual_machine_t list"
  enable_overcommit :: bool
  cpu_overcommit_ratio :: u32
  memory_overcommit_ratio :: u32

record node_score_t =
  total_score :: u32
  cpu_score :: u32
  memory_score :: u32
  storage_score :: u32
  network_score :: u32
  affinity_score :: u32
  feasible :: bool

definition virt_vm_find :: "virtual_machine_t list \<Rightarrow> u32 \<Rightarrow> virtual_machine_t option" where
  "virt_vm_find vms i = find (\<lambda>vm. vm_id vm = i) vms"

definition node_has_tag :: "cluster_node_t \<Rightarrow> string \<Rightarrow> bool" where
  "node_has_tag node tag = (tag \<in> set (tags node))"

definition node_is_feasible :: "scheduler_t \<Rightarrow> cluster_node_t \<Rightarrow> sched_request_t \<Rightarrow> bool" where
  "node_is_feasible sched node req =
     (if node_state node \<noteq> NODE_STATE_ONLINE then False
      else if health_score node < 50 then False
      else if node_name node \<in> set (forbidden_nodes req) then False
      else if \<exists>t \<in> set (required_tags req). \<not> node_has_tag node t then False
      else
        let available0 = (ucast (cpu_total_threads node) :: u64);
            available1 = (if enable_overcommit sched
                          then (available0 * ucast (cpu_overcommit_ratio sched)) div 100
                          else available0);
            available_vcpus = available1 - ucast (vm_count node * 2)
        in if ucast (vcpus req) > available_vcpus then False
           else
             let available_mem =
                   (if enable_overcommit sched
                    then (memory_total_bytes node * ucast (memory_overcommit_ratio sched)) div 100
                           - memory_used_bytes node
                    else memory_free_bytes node)
             in \<not> (memory req > available_mem))"

definition zero_score :: node_score_t where
  "zero_score = \<lparr>total_score = 0, cpu_score = 0, memory_score = 0, storage_score = 0,
                  network_score = 0, affinity_score = 0, feasible = False\<rparr>"

definition affinity_step :: "scheduler_t \<Rightarrow> cluster_node_t \<Rightarrow> u32 \<Rightarrow> u32 \<Rightarrow> u32" where
  "affinity_step sched node a i =
     (case virt_vm_find (vm_manager sched) i of
        Some vm \<Rightarrow> if host_node vm = Some (node_id node) then a + 25 else a
      | None \<Rightarrow> a)"

definition anti_affinity_step :: "scheduler_t \<Rightarrow> cluster_node_t \<Rightarrow> u32 \<Rightarrow> u32 \<Rightarrow> u32" where
  "anti_affinity_step sched node a i =
     (case virt_vm_find (vm_manager sched) i of
        Some vm \<Rightarrow> if host_node vm = Some (node_id node)
                   then (if a \<ge> 50 then a - 50 else 0) else a
      | None \<Rightarrow> a)"

definition scheduler_score_node :: "scheduler_t \<Rightarrow> cluster_node_t \<Rightarrow> sched_request_t \<Rightarrow> node_score_t" where
  "scheduler_score_node sched node req =
     (if \<not> node_is_feasible sched node req then zero_score
      else
        let total_cpu = (ucast (cpu_total_threads node) :: u64);
            used_cpu = (ucast (vm_count node * 2) :: u64);
            cpu = (if total_cpu > 0 then ucast (((total_cpu - used_cpu) * 100) div total_cpu) else 0);
            total_mem = memory_total_bytes node;
            free_mem = memory_free_bytes node;
            mem = (if total_mem > 0 then ucast ((free_mem * 100) div total_mem) else 0);
            total_storage = storage_total_bytes node;
            free_storage = storage_free_bytes node;
            sto = (if total_storage > 0 then ucast ((free_storage * 100) div total_storage) else 100);
            net = (if network_healthy node then 100 else 0);
            aff0 = (50 :: u32);
            aff1 = foldl (affinity_step sched node) aff0 (affinity_vm_ids req);
            aff2 = foldl (anti_affinity_step sched node) aff1 (anti_affinity_vm_ids req);
            aff = (if aff2 > 100 then 100 else aff2);
            total = (cpu * WEIGHT_CPU + mem * WEIGHT_MEMORY + sto * WEIGHT_STORAGE
                       + net * WEIGHT_NETWORK) div 100;
            total' = (if policy req = SCHED_POLICY_PACK then 100 - total else total)
        in \<lparr>total_score = total', cpu_score = cpu, memory_score = mem, storage_score = sto,
            network_score = net, affinity_score = aff, feasible = True\<rparr>)"

text \<open>
  The total as the specification words it: the weighted sum over 100 plus the affinity
  bonus \<open>\<lfloor>(affinity - 50) / 4\<rfloor>\<close>, over the integers, inverted under PACK.
\<close>

definition spec_total_score :: "node_score_t \<Rightarrow> u32 \<Rightarrow> int" where
  "spec_total_score sc pol =
     (let t = (uint (cpu_score sc) * 40 + uint (memory_score sc) * 40
                + uint (storage_score sc) * 10 + uint (network_score sc) * 10) div 100
              + (uint (affinity_score sc) - 50) div 4
      in if pol = SCHED_POLICY_PACK then 100 - t else t)"

text \<open>A node with eight threads and one VM, which hosts VM 7; a request with affinity to VM 7.\<close>

definition demo_node :: cluster_node_t where
  "demo_node = \<lparr>node_id = 1, node_name = ''n1'', node_state = NODE_STATE_ONLINE,
                 cpu_total_threads = 8, memory_total_bytes = 100, memory_free_bytes = 50,
                 memory_used_bytes = 50, storage_total_bytes = 0, storage_free_bytes = 0,
                 health_score = 100, network_healthy = True, tags = [], vm_count = 1\<rparr>"

definition demo_sched :: scheduler_t where
  "demo_sched = \<lparr>vm_manager = [\<lparr>vm_id = 7, host_node = Some 1\<rparr>], enable_overcommit = True,
                  cpu_overcommit_ratio = 200, memory_overcommit_ratio = 150\<rparr>"

definition demo_req :: "u32 \<Rightarrow> sched_request_t" where
  "demo_req pol = \<lparr>vcpus = 2, memory = 10, policy = pol, required_tags = [],
                    forbidden_nodes = [], affinity_vm_ids = [7], anti_affinity_vm_ids = []\<rparr>"


section \<open>Raft consensus: message handlers (src/storage/distributed.c)\<close>

text \<open>
  The log is the array \<^verbatim>\<open>raft->log\<close> (a function from slot to entry) with the two
  indices \<^verbatim>\<open>first_index\<close> and \<^verbatim>\<open>last_index\<close>. \<^verbatim>\<open>voted_for\<close> is an
  \<^verbatim>\<open>int32_t\<close>: its bits are a 32-bit word and \<open>-1\<close> is "unset". The time-stamp
  counter read by \<^verbatim>\<open>rdtsc()\<close> is a parameter \<open>tsc\<close>. A handler returns the new
  context together with the response it hands to \<^verbatim>\<open>send_message\<close>.
\<close>

definition RAFT_FOLLOWER :: u32 where "RAFT_FOLLOWER = 0"
definition RAFT_CANDIDATE :: u32 where "RAFT_CANDIDATE = 1"
definition RAFT_LEADER :: u32 where "RAFT_LEADER = 2"

record raft_log_entry_t =
  entry_index :: u64
  entry_term :: u64
  entry_type :: u32
  entry_data :: "u8 list"

record raft_context_t =
  raft_node_id :: u32
  raft_state :: u32
  current_term :: u64
  voted_for :: u32
  log :: "nat \<Rightarrow> raft_log_entry_t"
  first_index :: u64
  last_index :: u64
  commit_index :: u64
  last_applied :: u64
  leader_id :: u32
  votes_received :: u32
  last_heartbeat :: u64
  election_timeout :: u64

record raft_msg_header_t =
  from_node :: u32
  hdr_term :: u64

record raft_vote_request_t =
  vreq_hdr :: raft_msg_header_t
  last_log_index :: u64
  last_log_term :: u64

record raft_vote_response_t =
  vresp_hdr :: raft_msg_header_t
  granted :: bool

record raft_append_request_t =
  areq_hdr :: raft_msg_header_t
  prev_log_index :: u64
  prev_log_term :: u64
  leader_commit :: u64
  entry_count :: u32

record raft_append_response_t =
  aresp_hdr :: raft_msg_header_t
  success :: bool
  match_index :: u64

definition get_log_entry :: "raft_context_t \<Rightarrow> u64 \<Rightarrow> raft_log_entry_t option" where
  "get_log_entry raft i =
     (if i < first_index raft \<or> i > last_index raft then None
      else Some (log raft (unat (i - first_index raft))))"

definition get_last_log_term :: "raft_context_t \<Rightarrow> u64" where
  "get_last_log_term raft =
     (if last_index raft = 0 then 0
      else case get_log_entry raft (last_index raft) of Some e \<Rightarrow> entry_term e | None \<Rightarrow> 0)"

definition become_follower :: "raft_context_t \<Rightarrow> u64 \<Rightarrow> raft_context_t" where
  "become_follower raft t =
     raft\<lparr>raft_state := RAFT_FOLLOWER, current_term := t, voted_for := -1, votes_received := 0\<rparr>"

definition handle_vote_request ::
  "raft_context_t \<Rightarrow> raft_vote_request_t \<Rightarrow> u64 \<Rightarrow> raft_context_t \<times> raft_vote_response_t" where
  "handle_vote_request raft req tsc =
     (let raft1 = (if hdr_term (vreq_hdr req) > current_term raft
                   then become_follower raft (hdr_term (vreq_hdr req)) else raft);
          grant =
            (hdr_term (vreq_hdr req) \<ge> current_term raft1
             \<and> (voted_for raft1 = -1 \<or> voted_for raft1 = from_node (vreq_hdr req))
             \<and> (let last_term = get_last_log_term raft1
                in last_log_term req > last_term
                   \<or> (last_log_term req = last_term \<and> last_log_index req \<ge> last_index raft1)));
          raft2 = (if grant
                   then raft1\<lparr>voted_for := from_node (vreq_hdr req), last_heartbeat := tsc\<rparr>
                   else raft1)
      in (raft2, \<lparr>vresp_hdr = \<lparr>from_node = raft_node_id raft2, hdr_term = current_term raft2\<rparr>,
                  granted = grant\<rparr>))"

definition handle_append_request ::
  "raft_context_t \<Rightarrow> raft_append_request_t \<Rightarrow> u64 \<Rightarrow> raft_context_t \<times> raft_append_response_t" where
  "handle_append_request raft req tsc =
     (let raft1 = (if hdr_term (areq_hdr req) > current_term raft
                   then become_follower raft (hdr_term (areq_hdr req)) else raft);
          reply = (\<lambda>r ok m. (r, \<lparr>aresp_hdr = \<lparr>from_node = raft_node_id r, hdr_term = current_term r\<rparr>,
                                success = ok, match_index = m\<rparr>))
      in if hdr_term (areq_hdr req) < current_term raft1 then reply raft1 False 0
         else
           let raft2 = raft1\<lparr>leader_id := from_node (areq_hdr req), last_heartbeat := tsc\<rparr>;
               raft3 = (if raft_state raft2 = RAFT_CANDIDATE
                        then become_follower raft2 (hdr_term (areq_hdr req)) else raft2);
               consistent =
                 (if prev_log_index req > 0
                  then (case get_log_entry raft3 (prev_log_index req) of
                          None \<Rightarrow> False
                        | Some e \<Rightarrow> entry_term e = prev_log_term req)
                  else True)
           in if \<not> consistent then reply raft3 False 0
              else
                let raft4 =
                      (if leader_commit req > commit_index raft3
                       then (if leader_commit req > last_index raft3
                             then raft3\<lparr>commit_index := last_index raft3\<rparr>
                             else raft3\<lparr>commit_index := leader_commit req\<rparr>)
                       else raft3)
                in reply raft4 True (prev_log_index req + ucast (entry_count req)))"

text \<open>
  The acceptance condition and the vote condition as the specification words them, read
  on the node's state when the message arrives.
\<close>

definition spec_append_accepts :: "raft_context_t \<Rightarrow> raft_append_request_t \<Rightarrow> bool" where
  "spec_append_accepts raft req =
     (hdr_term (areq_hdr req) \<ge> current_term raft
      \<and> (case get_log_entry raft (prev_log_index req) of
            None \<Rightarrow> False | Some e \<Rightarrow> entry_term e = prev_log_term req))"

definition spec_grants_vote :: "raft_context_t \<Rightarrow> raft_vote_request_t \<Rightarrow> bool" where
  "spec_grants_vote raft req =
     (hdr_term (vreq_hdr req) \<ge> current_term raft
      \<and> (voted_for raft = -1 \<or> voted_for raft = from_node (vreq_hdr req))
      \<and> (last_log_term req > get_last_log_term raft
         \<or> (last_log_term req = get_last_log_term raft \<and> last_log_index req > last_index raft)))"

text \<open>
  A follower in term 1 that has not voted, with three log entries of term 1 at indices
  1 to 3 (slot 0 is unused) and commit index 3.
\<close>

definition demo_raft :: raft_context_t where
  "demo_raft =
     \<lparr>raft_node_id = 1, raft_state = RAFT_FOLLOWER, current_term = 1, voted_for = -1,
      log = (\<lambda>i. \<lparr>entry_index = of_nat i, entry_term = (if 1 \<le> i \<and> i \<le> 3 then 1 else 0),
                   entry_type = 0, entry_data = []\<rparr>),
      first_index = 0, last_index = 3, commit_index = 3, last_applied = 3, leader_id = 0,
      votes_received = 0, last_heartbeat = 0, election_timeout = 300\<rparr>"

definition demo_vote_req :: raft_vote_request_t where
  "demo_vote_req = \<lparr>vreq_hdr = \<lparr>from_node = 2, hdr_term = 1\<rparr>, last_log_index = 3, last_log_term = 1\<rparr>"

definition demo_append_req :: raft_append_request_t where
  "demo_append_req = \<lparr>areq_hdr = \<lparr>from_node = 2, hdr_term = 1\<rparr>, prev_log_index = 3,
                       prev_log_term = 1, leader_commit = 1, entry_count = 2\<rparr>"


section \<open>Block layer and storage pool (src/storage/block.c, memblk.c, pool.c)\<close>

text \<open>
  A physical device is a RAM-backed block device (\<^verbatim>\<open>mem_block_device_t\<close>, the only
  backend with a submit routine besides the volume itself): the size and read-only flag of
  its \<^verbatim>\<open>block_device_t\<close>, the size of its memory and the memory as a function from
  byte offset to byte. A request carries its buffer as a byte list. The synchronous
  wrappers \<^verbatim>\<open>block_read\<close> and \<^verbatim>\<open>block_write\<close> are generic in the device: they take
  the device's submit routine, as the source takes it from the operations table. Every
  submit routine of the repository completes the request before it returns, so the wait
  for the completion flag ends at once and the wrapper returns the status handed to the
  completion. An allocation of zero bytes returns \<^verbatim>\<open>NULL\<close>, as \<^verbatim>\<open>kmalloc\<close> does
  for size 0 (an extent table of no extents, an extent map of no extents); every other
  allocation of a request, table or map is taken to succeed. The per-device operation
  counters are left out.
\<close>

definition BLOCK_OP_READ :: u8 where "BLOCK_OP_READ = 0"
definition BLOCK_OP_WRITE :: u8 where "BLOCK_OP_WRITE = 1"
definition BLOCK_OP_FLUSH :: u8 where "BLOCK_OP_FLUSH = 2"
definition BLOCK_OP_WRITE_ZEROES :: u8 where "BLOCK_OP_WRITE_ZEROES = 4"

definition POOL_EXTENT_SIZE :: u64 where "POOL_EXTENT_SIZE = 4 * 1024 * 1024"
definition POOL_MAX_DEVICES :: nat where "POOL_MAX_DEVICES = 16"

definition POOL_STATE_OFFLINE :: u32 where "POOL_STATE_OFFLINE = 0"
definition POOL_STATE_DEGRADED :: u32 where "POOL_STATE_DEGRADED = 1"
definition POOL_STATE_ONLINE :: u32 where "POOL_STATE_ONLINE = 2"

definition EXTENT_FREE :: u32 where "EXTENT_FREE = 0"
definition EXTENT_ALLOCATED :: u32 where "EXTENT_ALLOCATED = 1"

record block_request_t =
  op :: u8
  offset :: u64
  req_length :: u32
  buffer :: "u8 list"
  status :: int

record mem_block_device_t =
  dev_size :: u64
  readonly :: bool
  mem_size :: u64
  memory :: "nat \<Rightarrow> u8"

definition mem_read :: "(nat \<Rightarrow> u8) \<Rightarrow> nat \<Rightarrow> nat \<Rightarrow> u8 list" where
  "mem_read m off n = map (\<lambda>i. m (off + i)) [0..<n]"

definition mem_write :: "(nat \<Rightarrow> u8) \<Rightarrow> nat \<Rightarrow> u8 list \<Rightarrow> nat \<Rightarrow> (nat \<Rightarrow> u8)" where
  "mem_write m off buf n = (\<lambda>a. if off \<le> a \<and> a < off + n then buf ! (a - off) else m a)"

definition mem_zero :: "(nat \<Rightarrow> u8) \<Rightarrow> nat \<Rightarrow> nat \<Rightarrow> (nat \<Rightarrow> u8)" where
  "mem_zero m off n = (\<lambda>a. if off \<le> a \<and> a < off + n then 0 else m a)"

definition mem_submit ::
  "mem_block_device_t \<Rightarrow> block_request_t \<Rightarrow> mem_block_device_t \<times> block_request_t \<times> int" where
  "mem_submit mdev req =
     (if offset req + ucast (req_length req) > mem_size mdev then (mdev, req\<lparr>status := -1\<rparr>, -1)
      else if op req = BLOCK_OP_READ then
        (mdev, req\<lparr>buffer := mem_read (memory mdev) (unat (offset req)) (unat (req_length req))
                              @ drop (unat (req_length req)) (buffer req),
                   status := 0\<rparr>, 0)
      else if op req = BLOCK_OP_WRITE then
        (mdev\<lparr>memory := mem_write (memory mdev) (unat (offset req)) (buffer req) (unat (req_length req))\<rparr>,
         req\<lparr>status := 0\<rparr>, 0)
      else if op req = BLOCK_OP_FLUSH then (mdev, req\<lparr>status := 0\<rparr>, 0)
      else if op req = BLOCK_OP_WRITE_ZEROES then
        (mdev\<lparr>memory := mem_zero (memory mdev) (unat (offset req)) (unat (req_length req))\<rparr>,
         req\<lparr>status := 0\<rparr>, 0)
      else (mdev, req\<lparr>status := -1\<rparr>, -1))"

definition block_read ::
  "('d \<Rightarrow> block_request_t \<Rightarrow> 'd \<times> block_request_t \<times> int) \<Rightarrow> ('d \<Rightarrow> u64) \<Rightarrow>
   'd \<Rightarrow> u64 \<Rightarrow> u8 list \<Rightarrow> u32 \<Rightarrow> 'd \<times> u8 list \<times> int" where
  "block_read submit size_of dev off buf len =
     (if off + ucast len > size_of dev then (dev, buf, -1)
      else
        let req = \<lparr>op = BLOCK_OP_READ, offset = off, req_length = len, buffer = buf, status = 0\<rparr>;
            (dev', req', ret) = submit dev req
        in (dev', buffer req', ret))"

definition block_write ::
  "('d \<Rightarrow> block_request_t \<Rightarrow> 'd \<times> block_request_t \<times> int) \<Rightarrow> ('d \<Rightarrow> u64) \<Rightarrow> ('d \<Rightarrow> bool) \<Rightarrow>
   'd \<Rightarrow> u64 \<Rightarrow> u8 list \<Rightarrow> u32 \<Rightarrow> 'd \<times> int" where
  "block_write submit size_of ro dev off buf len =
     (if ro dev then (dev, -1)
      else if off + ucast len > size_of dev then (dev, -1)
      else
        let req = \<lparr>op = BLOCK_OP_WRITE, offset = off, req_length = len, buffer = buf, status = 0\<rparr>;
            (dev', req', ret) = submit dev req
        in (dev', ret))"

abbreviation mem_block_read ::
  "mem_block_device_t \<Rightarrow> u64 \<Rightarrow> u8 list \<Rightarrow> u32 \<Rightarrow> mem_block_device_t \<times> u8 list \<times> int" where
  "mem_block_read \<equiv> block_read mem_submit dev_size"

abbreviation mem_block_write ::
  "mem_block_device_t \<Rightarrow> u64 \<Rightarrow> u8 list \<Rightarrow> u32 \<Rightarrow> mem_block_device_t \<times> int" where
  "mem_block_write \<equiv> block_write mem_submit dev_size readonly"

text \<open>
  The pool with its extent table and device vector, and a volume with its extent map.
  The volume's back pointer to its pool is made explicit: the state of the volume's block
  device is the pair of the pool and the volume.
\<close>

record extent_info_t =
  ext_state :: u32
  volume_id :: u32
  volume_offset :: u64
  device_id :: u32
  device_offset :: u64
  replica_count :: u32
  replica_extents :: "u32 list"

record storage_pool_t =
  pool_state :: u32
  total_size :: u64
  free_size :: u64
  used_size :: u64
  devices :: "mem_block_device_t list"
  extents :: "extent_info_t list"
  total_extents :: u32
  free_extents :: u32
  next_extent :: u32
  read_ops :: u64
  write_ops :: u64
  read_bytes :: u64
  write_bytes :: u64

record storage_volume_t =
  vol_id :: u32
  vol_size :: u64
  allocated :: u64
  replication :: u32
  thin_provisioned :: bool
  online :: bool
  extent_map :: "u32 list"
  num_extents :: u32

definition zero_extent :: extent_info_t where
  "zero_extent = \<lparr>ext_state = 0, volume_id = 0, volume_offset = 0, device_id = 0,
                   device_offset = 0, replica_count = 0, replica_extents = [0, 0, 0]\<rparr>"

definition pool_create :: storage_pool_t where
  "pool_create = \<lparr>pool_state = POOL_STATE_OFFLINE, total_size = 0, free_size = 0, used_size = 0,
                   devices = [], extents = [], total_extents = 0, free_extents = 0,
                   next_extent = 0, read_ops = 0, write_ops = 0, read_bytes = 0, write_bytes = 0\<rparr>"

definition pool_add_device :: "storage_pool_t \<Rightarrow> mem_block_device_t \<Rightarrow> storage_pool_t \<times> int" where
  "pool_add_device pool dev =
     (if length (devices pool) \<ge> POOL_MAX_DEVICES then (pool, -1)
      else
        let dev_idx = length (devices pool);
            dev_extents = dev_size dev div POOL_EXTENT_SIZE;
            old_total = total_extents pool;
            new_total = old_total + ucast dev_extents
        in if new_total = 0 then (pool, -1)
           else
        let fresh = map (\<lambda>k. zero_extent\<lparr>ext_state := EXTENT_FREE, device_id := of_nat dev_idx,
                                             device_offset := of_nat k * POOL_EXTENT_SIZE\<rparr>)
                        [0..<unat new_total - unat old_total];
            free' = free_extents pool + ucast dev_extents
        in (pool\<lparr>devices := devices pool @ [dev],
                 extents := take (unat old_total) (extents pool) @ fresh,
                 total_extents := new_total,
                 free_extents := free',
                 total_size := total_size pool + dev_extents * POOL_EXTENT_SIZE,
                 free_size := ucast free' * POOL_EXTENT_SIZE,
                 pool_state := (if pool_state pool = POOL_STATE_OFFLINE then POOL_STATE_ONLINE
                                else pool_state pool)\<rparr>, 0))"

definition take_extent :: "storage_pool_t \<Rightarrow> nat \<Rightarrow> storage_pool_t" where
  "take_extent pool i =
     pool\<lparr>extents := (extents pool)[i := (extents pool ! i)\<lparr>ext_state := EXTENT_ALLOCATED\<rparr>],
          free_extents := free_extents pool - 1,
          next_extent := of_nat i + 1\<rparr>"

definition pool_alloc_extent :: "storage_pool_t \<Rightarrow> storage_pool_t \<times> int \<times> u32" where
  "pool_alloc_extent pool =
     (if free_extents pool = 0 then (pool, -1, 0)
      else
        case find (\<lambda>i. ext_state (extents pool ! i) = EXTENT_FREE)
                  [unat (next_extent pool)..<unat (total_extents pool)] of
          Some i \<Rightarrow> (take_extent pool i, 0, of_nat i)
        | None \<Rightarrow>
           (case find (\<lambda>i. ext_state (extents pool ! i) = EXTENT_FREE)
                      [1..<unat (next_extent pool)] of
              Some i \<Rightarrow> (take_extent pool i, 0, of_nat i)
            | None \<Rightarrow> (pool, -1, 0)))"

definition pool_free_extent :: "storage_pool_t \<Rightarrow> u32 \<Rightarrow> storage_pool_t" where
  "pool_free_extent pool extent_id =
     (if extent_id > 0 \<and> extent_id < total_extents pool
      then pool\<lparr>extents := (extents pool)[unat extent_id :=
                     (extents pool ! unat extent_id)\<lparr>ext_state := EXTENT_FREE, volume_id := 0\<rparr>],
                free_extents := free_extents pool + 1\<rparr>
      else pool)"

text \<open>
  The replica loop of \<^verbatim>\<open>pool_alloc_replicated_extent\<close>: \<open>ids\<close> holds the extent ids
  allocated so far (primary first), \<open>n\<close> counts the replicas still to allocate.
\<close>

fun alloc_replicas :: "storage_pool_t \<Rightarrow> u32 list \<Rightarrow> nat \<Rightarrow> storage_pool_t \<times> int \<times> u32 list" where
  "alloc_replicas pool ids 0 = (pool, 0, ids)"
| "alloc_replicas pool ids (Suc n) =
     (case pool_alloc_extent pool of
        (pool1, ret, e) \<Rightarrow>
          if ret \<noteq> 0 then (foldl pool_free_extent pool1 ids, -1, ids)
          else
            let p = unat (hd ids);
                prim = extents pool1 ! p;
                pool2 = pool1\<lparr>extents := (extents pool1)[p :=
                          prim\<lparr>replica_extents := (replica_extents prim)[length ids - 1 := e]\<rparr>]\<rparr>
            in alloc_replicas pool2 (ids @ [e]) n)"

definition pool_alloc_replicated_extent ::
  "storage_pool_t \<Rightarrow> u32 \<Rightarrow> storage_pool_t \<times> int \<times> u32 list" where
  "pool_alloc_replicated_extent pool repl =
     (if free_extents pool < repl + 1 then (pool, -1, [])
      else
        case pool_alloc_extent pool of
          (pool1, ret, e0) \<Rightarrow>
            if ret \<noteq> 0 then (pool1, -1, [])
            else
              (case alloc_replicas pool1 [e0] (unat repl) of
                 (pool2, ret2, ids) \<Rightarrow>
                   if ret2 \<noteq> 0 then (pool2, -1, ids)
                   else
                     (pool2\<lparr>extents := (extents pool2)[unat e0 :=
                                (extents pool2 ! unat e0)\<lparr>replica_count := repl\<rparr>]\<rparr>, 0, ids)))"

text \<open>
  The pre-allocation loop of a thick \<^verbatim>\<open>volume_create\<close>, for the volume extents from
  \<open>i\<close> on; \<open>None\<close> is the rollback path that returns \<^verbatim>\<open>NULL\<close>.
\<close>

fun prealloc :: "storage_pool_t \<Rightarrow> u32 \<Rightarrow> u32 \<Rightarrow> u32 list \<Rightarrow> nat \<Rightarrow> nat \<Rightarrow> storage_pool_t \<times> u32 list option" where
  "prealloc pool vid repl emap i 0 = (pool, Some emap)"
| "prealloc pool vid repl emap i (Suc n) =
     (case pool_alloc_replicated_extent pool repl of
        (pool1, ret, ids) \<Rightarrow>
          if ret \<noteq> 0 then (foldl pool_free_extent pool1 (take i emap), None)
          else
            let e0 = hd ids;
                pool2 = pool1\<lparr>extents := (extents pool1)[unat e0 :=
                          (extents pool1 ! unat e0)\<lparr>volume_id := vid,
                             volume_offset := of_nat i * POOL_EXTENT_SIZE\<rparr>]\<rparr>
            in prealloc pool2 vid repl (emap[i := e0]) (Suc i) n)"

definition volume_create ::
  "storage_pool_t \<Rightarrow> u32 \<Rightarrow> u64 \<Rightarrow> u32 \<Rightarrow> bool \<Rightarrow> storage_pool_t \<times> storage_volume_t option" where
  "volume_create pool vid sz repl thin =
     (if pool_state pool = POOL_STATE_OFFLINE then (pool, None)
      else
        let n = (ucast ((sz + POOL_EXTENT_SIZE - 1) div POOL_EXTENT_SIZE) :: u32);
            needed = n * (repl + 1)
        in if \<not> thin \<and> free_extents pool < needed then (pool, None)
           else if n = 0 then (pool, None)
           else
             let vol = \<lparr>vol_id = vid, vol_size = ucast n * POOL_EXTENT_SIZE, allocated = 0,
                        replication = repl, thin_provisioned = thin, online = True,
                        extent_map = replicate (unat n) 0, num_extents = n\<rparr>
             in if thin then (pool, Some vol)
                else
                  (case prealloc pool vid repl (extent_map vol) 0 (unat n) of
                     (pool1, None) \<Rightarrow> (pool1, None)
                   | (pool1, Some emap) \<Rightarrow>
                       (pool1\<lparr>used_size := used_size pool1 + vol_size vol,
                               free_size := free_size pool1 - vol_size vol\<rparr>,
                        Some (vol\<lparr>extent_map := emap, allocated := vol_size vol\<rparr>))))"

definition write_replica ::
  "storage_pool_t \<Rightarrow> u64 \<Rightarrow> u8 list \<Rightarrow> u32 \<Rightarrow> mem_block_device_t list \<Rightarrow> u32 \<Rightarrow> mem_block_device_t list" where
  "write_replica pool extent_offset buf len devs rep_ext =
     (let rep = extents pool ! unat rep_ext;
          d = unat (device_id rep)
      in devs[d := fst (mem_block_write (devs ! d) (device_offset rep + extent_offset) buf len)])"

definition volume_submit ::
  "storage_pool_t \<times> storage_volume_t \<Rightarrow> block_request_t \<Rightarrow>
   (storage_pool_t \<times> storage_volume_t) \<times> block_request_t \<times> int" where
  "volume_submit pv req =
     (let pool = fst pv; vol = snd pv in
      if \<not> online vol \<or> pool_state pool = POOL_STATE_OFFLINE then (pv, req\<lparr>status := -1\<rparr>, -1)
      else
        let extent_idx = (ucast (offset req div POOL_EXTENT_SIZE) :: u32);
            extent_offset = offset req mod POOL_EXTENT_SIZE
        in if extent_idx \<ge> num_extents vol then (pv, req\<lparr>status := -1\<rparr>, -1)
           else
             let pool_extent0 = extent_map vol ! unat extent_idx;
                 on_demand = (pool_extent0 = 0 \<and> op req = BLOCK_OP_WRITE);
                 (pool1, aret, pool_extent) =
                    (if on_demand then pool_alloc_extent pool else (pool, 0, pool_extent0))
             in if on_demand \<and> aret \<noteq> 0 then ((pool1, vol), req\<lparr>status := -1\<rparr>, -1)
                else
                  let vol1 = (if on_demand
                              then vol\<lparr>extent_map := (extent_map vol)[unat extent_idx := pool_extent],
                                       allocated := allocated vol + POOL_EXTENT_SIZE\<rparr>
                              else vol)
                  in if pool_extent = 0 \<and> op req = BLOCK_OP_READ then
                       ((pool1, vol1),
                        req\<lparr>buffer := replicate (unat (req_length req)) 0 @ drop (unat (req_length req)) (buffer req),
                            status := 0\<rparr>, 0)
                     else
                       let ext = extents pool1 ! unat pool_extent;
                           d = unat (device_id ext);
                           phys_dev = devices pool1 ! d;
                           phys_offset = device_offset ext + extent_offset
                       in if op req = BLOCK_OP_READ then
                            (case mem_block_read phys_dev phys_offset (buffer req) (req_length req) of
                               (dev', buf', ret) \<Rightarrow>
                                 ((pool1\<lparr>devices := (devices pool1)[d := dev'],
                                         read_ops := read_ops pool1 + 1,
                                         read_bytes := read_bytes pool1 + ucast (req_length req)\<rparr>, vol1),
                                  req\<lparr>buffer := buf', status := ret\<rparr>, ret))
                          else if op req = BLOCK_OP_WRITE then
                            (case mem_block_write phys_dev phys_offset (buffer req) (req_length req) of
                               (dev', ret) \<Rightarrow>
                                 let devs1 = (devices pool1)[d := dev'];
                                     devs2 = foldl (write_replica pool1 extent_offset (buffer req) (req_length req))
                                               devs1
                                               (map (\<lambda>r. replica_extents ext ! r)
                                                    [0..<unat (replica_count ext)])
                                 in ((pool1\<lparr>devices := devs2,
                                            write_ops := write_ops pool1 + 1,
                                            write_bytes := write_bytes pool1 + ucast (req_length req)\<rparr>, vol1),
                                     req\<lparr>status := ret\<rparr>, ret))
                          else ((pool1, vol1), req\<lparr>status := 0\<rparr>, 0))"

text \<open>Synchronous reads and writes on the volume's own block device.\<close>

abbreviation volume_read ::
  "storage_pool_t \<times> storage_volume_t \<Rightarrow> u64 \<Rightarrow> u8 list \<Rightarrow> u32 \<Rightarrow>
   (storage_pool_t \<times> storage_volume_t) \<times> u8 list \<times> int" where
  "volume_read \<equiv> block_read volume_submit (\<lambda>pv. vol_size (snd pv))"

abbreviation volume_write ::
  "storage_pool_t \<times> storage_volume_t \<Rightarrow> u64 \<Rightarrow> u8 list \<Rightarrow> u32 \<Rightarrow>
   (storage_pool_t \<times> storage_volume_t) \<times> int" where
  "volume_write \<equiv> block_write volume_submit (\<lambda>pv. vol_size (snd pv)) (\<lambda>pv. False)"

text \<open>
  The scenario of the kernel's own storage self-test and of the specification's thin
  volume round trip: a fresh pool, one zeroed memory device, a thin volume without
  replication, then a write of five bytes at offset 0 and a read of the same range.
\<close>

definition demo_dev :: "u64 \<Rightarrow> bool \<Rightarrow> mem_block_device_t" where
  "demo_dev sz ro = \<lparr>dev_size = sz, readonly = ro, mem_size = sz, memory = (\<lambda>a. 0)\<rparr>"

definition hello :: "u8 list" where
  "hello = [0x48, 0x45, 0x4C, 0x4C, 0x4F]"

definition thin_pool :: "storage_pool_t \<times> storage_volume_t" where
  "thin_pool =
     (let (pool1, r1) = pool_add_device pool_create (demo_dev (64 * 1024 * 1024) False);
          (pool2, v) = volume_create pool1 1 (16 * 1024 * 1024) 0 True
      in (pool2, the v))"

definition thin_after_write :: "(storage_pool_t \<times> storage_volume_t) \<times> int" where
  "thin_after_write = volume_write thin_pool 0 hello 5"

definition thin_after_read :: "(storage_pool_t \<times> storage_volume_t) \<times> u8 list \<times> int" where
  "thin_after_read = volume_read (fst thin_after_write) 0 [1, 1, 1, 1, 1] 5"


text \<open>
  A pool of two devices for the replica checks: device 0 holds extents 0 to 2, device 1
  holds extent 3 and may be read-only. A first thick mirrored volume takes extents 0 and 1,
  a second one gets extent 2 as its primary and extent 3, on the other device, as its
  replica.
\<close>

definition mirror_pool :: "bool \<Rightarrow> storage_pool_t \<times> storage_volume_t" where
  "mirror_pool ro =
     (let (pool1, r1) = pool_add_device pool_create (demo_dev (12 * 1024 * 1024) False);
          (pool2, r2) = pool_add_device pool1 (demo_dev (4 * 1024 * 1024) ro);
          (pool3, va) = volume_create pool2 1 (4 * 1024 * 1024) 1 False;
          (pool4, vb) = volume_create pool3 2 (4 * 1024 * 1024) 1 False
      in (pool4, the vb))"

definition mirror_after_write :: "bool \<Rightarrow> (storage_pool_t \<times> storage_volume_t) \<times> int" where
  "mirror_after_write ro = volume_write (mirror_pool ro) 16 hello 5"


text \<open>
  For stating what a replicated write does: the places a write to extent \<open>ext\<close> at
  \<open>extent_offset\<close> goes to (the primary first, then each replica, as device index and
  device offset), when a device takes a write of \<open>len\<close> bytes at an offset, and when two
  places do not overlap.
\<close>

definition write_targets :: "storage_pool_t \<Rightarrow> extent_info_t \<Rightarrow> u64 \<Rightarrow> (nat \<times> u64) list" where
  "write_targets pool ext extent_offset =
     (unat (device_id ext), device_offset ext + extent_offset)
     # map (\<lambda>r. let rep = extents pool ! unat (replica_extents ext ! r)
                in (unat (device_id rep), device_offset rep + extent_offset))
           [0..<unat (replica_count ext)]"

definition takes_write :: "mem_block_device_t \<Rightarrow> u64 \<Rightarrow> u32 \<Rightarrow> bool" where
  "takes_write dev off len =
     (\<not> readonly dev \<and> unat off + unat len \<le> unat (dev_size dev)
      \<and> unat off + unat len \<le> unat (mem_size dev))"

definition apart :: "u32 \<Rightarrow> nat \<times> u64 \<Rightarrow> nat \<times> u64 \<Rightarrow> bool" where
  "apart len t1 t2 =
     (fst t1 \<noteq> fst t2 \<or> unat (snd t1) + unat len \<le> unat (snd t2)
      \<or> unat (snd t2) + unat len \<le> unat (snd t1))"


text \<open>One write of the request's payload to a place, on the device vector.\<close>

definition write_at :: "u8 list \<Rightarrow> u32 \<Rightarrow> mem_block_device_t list \<Rightarrow> nat \<times> u64 \<Rightarrow> mem_block_device_t list" where
  "write_at buf len devs t = devs[fst t := fst (mem_block_write (devs ! fst t) (snd t) buf len)]"


definition demo_write_req :: block_request_t where
  "demo_write_req = \<lparr>op = BLOCK_OP_WRITE, offset = 16, req_length = 5, buffer = hello, status = 0\<rparr>"


section \<open>Host page tables (src/mm/paging.c)\<close>

text \<open>
  Page tables live in physical memory and are reached through the kernel's direct map
  (\<^verbatim>\<open>phys_to_virt\<close> adds a constant, \<^verbatim>\<open>virt_to_phys\<close> subtracts it), so a table is
  identified by its physical address and the memory that holds the tables is a function
  from the physical address of an 8-byte entry to its value. Tables are allocated from
  the physical memory manager modelled above. The TLB is not modelled, so
  \<^verbatim>\<open>paging_flush_tlb\<close> has no effect on the state.
\<close>

definition PTE_PRESENT :: u64 where "PTE_PRESENT = 0x1"
definition PTE_WRITABLE :: u64 where "PTE_WRITABLE = 0x2"
definition PTE_USER :: u64 where "PTE_USER = 0x4"
definition PTE_CACHE_DISABLE :: u64 where "PTE_CACHE_DISABLE = 0x10"
definition PTE_HUGE :: u64 where "PTE_HUGE = 0x80"
definition PTE_NO_EXECUTE :: u64 where "PTE_NO_EXECUTE = 0x8000000000000000"
definition PTE_ADDR_MASK :: u64 where "PTE_ADDR_MASK = 0x000FFFFFFFFFF000"

definition MAP_USER :: u32 where "MAP_USER = 0x01"
definition MAP_WRITE :: u32 where "MAP_WRITE = 0x02"
definition MAP_EXEC :: u32 where "MAP_EXEC = 0x04"
definition MAP_NOCACHE :: u32 where "MAP_NOCACHE = 0x08"
definition MAP_HUGE_2M :: u32 where "MAP_HUGE_2M = 0x10"
definition MAP_HUGE_1G :: u32 where "MAP_HUGE_1G = 0x20"

definition GB :: u64 where "GB = 0x40000000"
definition MB2 :: u64 where "MB2 = 0x200000"

definition PML4_INDEX :: "u64 \<Rightarrow> u64" where "PML4_INDEX addr = drop_bit 39 addr AND 0x1FF"
definition PDPT_INDEX :: "u64 \<Rightarrow> u64" where "PDPT_INDEX addr = drop_bit 30 addr AND 0x1FF"
definition PD_INDEX :: "u64 \<Rightarrow> u64" where "PD_INDEX addr = drop_bit 21 addr AND 0x1FF"
definition PT_INDEX :: "u64 \<Rightarrow> u64" where "PT_INDEX addr = drop_bit 12 addr AND 0x1FF"
definition PAGE_OFFSET :: "u64 \<Rightarrow> u64" where "PAGE_OFFSET addr = addr AND 0xFFF"

record vm_context_t =
  pml4_phys :: u64
  ctx_flags :: u64

record paging_state =
  mem :: "u64 \<Rightarrow> u64"
  pmm :: pmm_state
  kernel_context :: vm_context_t

definition flags_to_pte :: "u32 \<Rightarrow> u64" where
  "flags_to_pte fl =
     (let f0 = PTE_PRESENT;
          f1 = (if fl AND MAP_WRITE \<noteq> 0 then f0 OR PTE_WRITABLE else f0);
          f2 = (if fl AND MAP_USER \<noteq> 0 then f1 OR PTE_USER else f1);
          f3 = (if fl AND MAP_EXEC = 0 then f2 OR PTE_NO_EXECUTE else f2);
          f4 = (if fl AND MAP_NOCACHE \<noteq> 0 then f3 OR PTE_CACHE_DISABLE else f3)
      in f4)"

definition entry_addr :: "u64 \<Rightarrow> u64 \<Rightarrow> u64" where
  "entry_addr table idx = table + 8 * idx"

definition zero_table :: "(u64 \<Rightarrow> u64) \<Rightarrow> u64 \<Rightarrow> (u64 \<Rightarrow> u64)" where
  "zero_table m table = (\<lambda>a. if a - table < 4096 then 0 else m a)"

definition alloc_page_table :: "paging_state \<Rightarrow> paging_state \<times> u64 option" where
  "alloc_page_table st =
     (case pmm_alloc_pages (pmm st) 0 of
        (pmm', phys) \<Rightarrow>
          if phys = 0 then (st\<lparr>pmm := pmm'\<rparr>, None)
          else (st\<lparr>pmm := pmm', mem := zero_table (mem st) phys\<rparr>, Some phys))"

text \<open>
  One level of the walk in \<^verbatim>\<open>get_pte\<close>: the table the entry at \<open>e\<close> points to,
  created on demand. \<open>Inl\<close> ends the walk (with \<^verbatim>\<open>NULL\<close> or with the huge entry),
  \<open>Inr\<close> continues into the next table.
\<close>

definition next_table ::
  "paging_state \<Rightarrow> u64 \<Rightarrow> bool \<Rightarrow> bool \<Rightarrow> paging_state \<times> (u64 option + u64)" where
  "next_table st e huge_ok create =
     (if mem st e AND PTE_PRESENT \<noteq> 0 then
        (if huge_ok \<and> mem st e AND PTE_HUGE \<noteq> 0 then (st, Inl (Some e))
         else (st, Inr (mem st e AND PTE_ADDR_MASK)))
      else if \<not> create then (st, Inl None)
      else
        (case alloc_page_table st of
           (st1, None) \<Rightarrow> (st1, Inl None)
         | (st1, Some t) \<Rightarrow>
             (st1\<lparr>mem := (mem st1)(e := t OR PTE_PRESENT OR PTE_WRITABLE)\<rparr>, Inr t)))"

definition get_pte :: "paging_state \<Rightarrow> u64 \<Rightarrow> u64 \<Rightarrow> bool \<Rightarrow> paging_state \<times> u64 option" where
  "get_pte st pml4 virt create =
     (case next_table st (entry_addr pml4 (PML4_INDEX virt)) False create of
        (st1, Inl r) \<Rightarrow> (st1, r)
      | (st1, Inr pdpt) \<Rightarrow>
         (case next_table st1 (entry_addr pdpt (PDPT_INDEX virt)) True create of
            (st2, Inl r) \<Rightarrow> (st2, r)
          | (st2, Inr pd) \<Rightarrow>
             (case next_table st2 (entry_addr pd (PD_INDEX virt)) True create of
                (st3, Inl r) \<Rightarrow> (st3, r)
              | (st3, Inr pt) \<Rightarrow> (st3, Some (entry_addr pt (PT_INDEX virt))))))"

definition paging_create_context :: "paging_state \<Rightarrow> paging_state \<times> vm_context_t option" where
  "paging_create_context st =
     (case pmm_alloc_pages (pmm st) 0 of
        (pmm', phys) \<Rightarrow>
          if phys = 0 then (st\<lparr>pmm := pmm'\<rparr>, None)
          else
            let k = pml4_phys (kernel_context st);
                m = mem st
            in (st\<lparr>pmm := pmm',
                    mem := (\<lambda>a. if a - phys < 2048 then 0
                                else if a - phys < 4096 then m (k + (a - phys))
                                else m a)\<rparr>,
                Some \<lparr>pml4_phys = phys, ctx_flags = 0\<rparr>))"

function map_1g :: "paging_state \<Rightarrow> u64 \<Rightarrow> u64 \<Rightarrow> u64 \<Rightarrow> u64 \<Rightarrow> u64
                   \<Rightarrow> paging_state \<times> (u64 \<times> u64 \<times> u64) option" where
  "map_1g st pml4 pte_flags virt phys sz =
     (if sz \<ge> GB then
        (case get_pte st pml4 virt True of
           (st1, None) \<Rightarrow> (st1, None)
         | (st1, Some e) \<Rightarrow>
             let pdpt = mem st1 (entry_addr pml4 (PML4_INDEX virt)) AND PTE_ADDR_MASK;
                 st2 = st1\<lparr>mem := (mem st1)(entry_addr pdpt (PDPT_INDEX virt)
                                                := phys OR pte_flags OR PTE_HUGE)\<rparr>
             in map_1g st2 pml4 pte_flags (virt + GB) (phys + GB) (sz - GB))
      else (st, Some (virt, phys, sz)))"
  by pat_completeness auto
termination
proof (relation "measure (\<lambda>(st, pml4, pte_flags, virt, phys, sz). unat sz)")
  show "wf (measure (\<lambda>(st, pml4, pte_flags, virt, phys, sz). unat sz))" by simp
next
  fix st pml4 pte_flags virt phys and sz :: u64 and x st1 o2 e pdpt st2
  assume "GB \<le> sz"
  then show "((st2, pml4, pte_flags, virt + GB, phys + GB, sz - GB), st, pml4, pte_flags, virt, phys, sz)
             \<in> measure (\<lambda>(st, pml4, pte_flags, virt, phys, sz). unat sz)"
    by (simp add: GB_def unat_sub word_le_nat_alt)
qed

declare map_1g.simps [simp del]

definition ensure_table :: "paging_state \<Rightarrow> u64 \<Rightarrow> paging_state \<times> bool" where
  "ensure_table st e =
     (if mem st e AND PTE_PRESENT = 0 then
        (case alloc_page_table st of
           (st1, None) \<Rightarrow> (st1, False)
         | (st1, Some t) \<Rightarrow> (st1\<lparr>mem := (mem st1)(e := t OR PTE_PRESENT OR PTE_WRITABLE)\<rparr>, True))
      else (st, True))"

function map_2m :: "paging_state \<Rightarrow> u64 \<Rightarrow> u64 \<Rightarrow> u64 \<Rightarrow> u64 \<Rightarrow> u64
                   \<Rightarrow> paging_state \<times> (u64 \<times> u64 \<times> u64) option" where
  "map_2m st pml4 pte_flags virt phys sz =
     (if sz \<ge> MB2 then
        (case ensure_table st (entry_addr pml4 (PML4_INDEX virt)) of
           (st1, False) \<Rightarrow> (st1, None)
         | (st1, True) \<Rightarrow>
             let pdpt = mem st1 (entry_addr pml4 (PML4_INDEX virt)) AND PTE_ADDR_MASK
             in (case ensure_table st1 (entry_addr pdpt (PDPT_INDEX virt)) of
                   (st2, False) \<Rightarrow> (st2, None)
                 | (st2, True) \<Rightarrow>
                     let pd = mem st2 (entry_addr pdpt (PDPT_INDEX virt)) AND PTE_ADDR_MASK;
                         st3 = st2\<lparr>mem := (mem st2)(entry_addr pd (PD_INDEX virt)
                                                        := phys OR pte_flags OR PTE_HUGE)\<rparr>
                     in map_2m st3 pml4 pte_flags (virt + MB2) (phys + MB2) (sz - MB2)))
      else (st, Some (virt, phys, sz)))"
  by pat_completeness auto
termination
proof (relation "measure (\<lambda>(st, pml4, pte_flags, virt, phys, sz). unat sz)")
  show "wf (measure (\<lambda>(st, pml4, pte_flags, virt, phys, sz). unat sz))" by simp
next
  fix st pml4 pte_flags virt phys and sz :: u64 and st3
  assume "MB2 \<le> sz"
  then show "((st3, pml4, pte_flags, virt + MB2, phys + MB2, sz - MB2), st, pml4, pte_flags, virt, phys, sz)
             \<in> measure (\<lambda>(st, pml4, pte_flags, virt, phys, sz). unat sz)"
    by (simp add: MB2_def unat_sub word_le_nat_alt)
qed

declare map_2m.simps [simp del]

text \<open>
  The last loop of \<^verbatim>\<open>paging_map\<close> subtracts the page size from an unsigned size until it
  is zero; for a size that is not a multiple of the page size the subtraction wraps around
  and the loop only ends when a table allocation fails. The model therefore defines it as
  a partial function: \<open>None\<close> stands for a loop that does not return.
\<close>

partial_function (option) map_4k ::
  "paging_state \<Rightarrow> u64 \<Rightarrow> u64 \<Rightarrow> u64 \<Rightarrow> u64 \<Rightarrow> u64 \<Rightarrow> (paging_state \<times> int) option" where
  "map_4k st pml4 pte_flags virt phys sz =
     (if sz > 0 then
        (case get_pte st pml4 virt True of
           (st1, None) \<Rightarrow> Some (st1, -1)
         | (st1, Some e) \<Rightarrow>
             map_4k (st1\<lparr>mem := (mem st1)(e := phys OR pte_flags)\<rparr>) pml4 pte_flags
               (virt + 4096) (phys + 4096) (sz - 4096))
      else Some (st, 0))"

declare map_4k.simps [code]

definition the_context :: "paging_state \<Rightarrow> vm_context_t option \<Rightarrow> vm_context_t" where
  "the_context st ctx = (case ctx of None \<Rightarrow> kernel_context st | Some c \<Rightarrow> c)"

definition paging_map ::
  "paging_state \<Rightarrow> vm_context_t option \<Rightarrow> u64 \<Rightarrow> u64 \<Rightarrow> u64 \<Rightarrow> u32 \<Rightarrow> (paging_state \<times> int) option" where
  "paging_map st ctx virt phys sz fl =
     (let pml4 = pml4_phys (the_context st ctx);
          pte_flags = flags_to_pte fl
      in case (if fl AND MAP_HUGE_1G \<noteq> 0 then map_1g st pml4 pte_flags virt phys sz
               else (st, Some (virt, phys, sz))) of
           (st1, None) \<Rightarrow> Some (st1, -1)
         | (st1, Some (virt1, phys1, sz1)) \<Rightarrow>
            (case (if fl AND MAP_HUGE_2M \<noteq> 0 then map_2m st1 pml4 pte_flags virt1 phys1 sz1
                   else (st1, Some (virt1, phys1, sz1))) of
               (st2, None) \<Rightarrow> Some (st2, -1)
             | (st2, Some (virt2, phys2, sz2)) \<Rightarrow> map_4k st2 pml4 pte_flags virt2 phys2 sz2))"

function unmap_loop :: "paging_state \<Rightarrow> u64 \<Rightarrow> u64 \<Rightarrow> u64 \<Rightarrow> paging_state" where
  "unmap_loop st pml4 virt sz =
     (if sz > 0 then
        (case get_pte st pml4 virt False of
           (st1, r) \<Rightarrow>
             let st2 = (case r of
                          Some e \<Rightarrow> if mem st1 e AND PTE_PRESENT \<noteq> 0
                                    then st1\<lparr>mem := (mem st1)(e := 0)\<rparr> else st1
                        | None \<Rightarrow> st1)
             in unmap_loop st2 pml4 (virt + 4096) (if sz \<ge> 4096 then sz - 4096 else 0))
      else st)"
  by pat_completeness auto
termination
proof (relation "measure (\<lambda>(st, pml4, virt, sz). unat sz)")
  show "wf (measure (\<lambda>(st, pml4, virt, sz). unat sz))" by simp
next
  fix st pml4 virt and sz :: u64 and st2
  assume "0 < sz"
  then have "0 < unat sz" by (simp add: word_less_nat_alt)
  then show "((st2, pml4, virt + 4096, if 4096 \<le> sz then sz - 4096 else 0), st, pml4, virt, sz)
             \<in> measure (\<lambda>(st, pml4, virt, sz). unat sz)"
    by (auto simp: unat_sub word_le_nat_alt)
qed

declare unmap_loop.simps [simp del]

definition paging_unmap :: "paging_state \<Rightarrow> vm_context_t option \<Rightarrow> u64 \<Rightarrow> u64 \<Rightarrow> paging_state \<times> int" where
  "paging_unmap st ctx virt sz = (unmap_loop st (pml4_phys (the_context st ctx)) virt sz, 0)"

definition paging_get_phys :: "paging_state \<Rightarrow> vm_context_t option \<Rightarrow> u64 \<Rightarrow> u64" where
  "paging_get_phys st ctx virt =
     (case get_pte st (pml4_phys (the_context st ctx)) virt False of
        (st1, None) \<Rightarrow> 0
      | (st1, Some e) \<Rightarrow>
          if mem st1 e AND PTE_PRESENT = 0 then 0
          else (mem st1 e AND PTE_ADDR_MASK) OR PAGE_OFFSET virt)"

text \<open>
  A context for the concrete checks: empty memory, the demo allocator, a fresh context
  from \<^verbatim>\<open>paging_create_context\<close>, and then a 2 MiB mapping with the 2 MiB size hint
  of virtual 0x200000 to physical 0x40000000.
\<close>

definition demo_paging :: "paging_state \<times> vm_context_t option" where
  "demo_paging =
     paging_create_context \<lparr>mem = (\<lambda>a. 0), pmm = pmm_demo,
                            kernel_context = \<lparr>pml4_phys = 0, ctx_flags = 0\<rparr>\<rparr>"

definition demo_huge_map :: "(paging_state \<times> int) option" where
  "demo_huge_map =
     paging_map (fst demo_paging) (snd demo_paging) 0x200000 0x40000000 0x200000
       (MAP_HUGE_2M OR MAP_WRITE)"


section \<open>Kernel heap (src/mm/heap.c)\<close>

text \<open>
  Block headers live in the heap memory itself. The model keeps a store from the address
  of a header to the header, and a second store for the contents of payload bytes; the
  zeroing of \<^verbatim>\<open>GFP_ZERO\<close> clears both the payload bytes and every header field in its
  range. Pointers are 64-bit virtual addresses and 0 is \<^verbatim>\<open>NULL\<close>. Pages
  come from the physical memory manager modelled above, through the direct map. The walks
  along the free list follow \<^verbatim>\<open>next\<close> pointers for as long as the list goes on, so
  they are partial functions (\<open>None\<close>: the walk does not end).
\<close>

definition HEAP_MAGIC :: u32 where "HEAP_MAGIC = 0xDEADBEEF"
definition BLOCK_FLAG_FREE :: u32 where "BLOCK_FLAG_FREE = 1"
definition HEADER_SIZE :: u64 where "HEADER_SIZE = 32"
definition MIN_BLOCK_SIZE :: u64 where "MIN_BLOCK_SIZE = 48"
definition GFP_ZERO :: u32 where "GFP_ZERO = 0x01"
definition KERNEL_OFFSET :: u64 where "KERNEL_OFFSET = 0xFFFF800000000000"

definition phys_to_virt :: "u64 \<Rightarrow> u64" where "phys_to_virt paddr = paddr + KERNEL_OFFSET"

record block_header_t =
  blk_magic :: u32
  blk_size :: u32
  blk_flags :: u32
  blk_next :: u64
  blk_prev :: u64

record heap_stats_t =
  total_allocated :: u64
  current_usage :: u64
  peak_usage :: u64
  heap_alloc_count :: u64

record heap_state =
  free_list :: u64
  heap_start :: u64
  heap_end :: u64
  heap_initialized :: bool
  heap_stats :: heap_stats_t
  hdr :: "u64 \<Rightarrow> block_header_t"
  bytes :: "u64 \<Rightarrow> u8"
  heap_pmm :: pmm_state

definition ALIGN_UP16 :: "u64 \<Rightarrow> u64" where
  "ALIGN_UP16 x = (x + 15) AND NOT 15"

partial_function (option) walk_to_slot :: "(u64 \<Rightarrow> block_header_t) \<Rightarrow> u64 \<Rightarrow> u64 \<Rightarrow> u64 option" where
  "walk_to_slot h cb block =
     (if blk_next (h cb) \<noteq> 0 \<and> blk_next (h cb) < block
      then walk_to_slot h (blk_next (h cb)) block
      else Some cb)"

declare walk_to_slot.simps [code]

definition heap_free_list_add :: "heap_state \<Rightarrow> u64 \<Rightarrow> heap_state option" where
  "heap_free_list_add st block =
     (let h1 = (hdr st)(block := (hdr st block)\<lparr>blk_flags := blk_flags (hdr st block) OR BLOCK_FLAG_FREE\<rparr>)
      in if free_list st = 0 \<or> block < free_list st then
           (let h2 = h1(block := (h1 block)\<lparr>blk_next := free_list st, blk_prev := 0\<rparr>);
                h3 = (if free_list st \<noteq> 0
                      then h2(free_list st := (h2 (free_list st))\<lparr>blk_prev := block\<rparr>) else h2)
            in Some (st\<lparr>hdr := h3, free_list := block\<rparr>))
         else
           (case walk_to_slot h1 (free_list st) block of
              None \<Rightarrow> None
            | Some cb \<Rightarrow>
                let h2 = h1(block := (h1 block)\<lparr>blk_next := blk_next (h1 cb), blk_prev := cb\<rparr>);
                    h3 = (if blk_next (h2 cb) \<noteq> 0
                          then h2(blk_next (h2 cb) := (h2 (blk_next (h2 cb)))\<lparr>blk_prev := block\<rparr>)
                          else h2);
                    h4 = h3(cb := (h3 cb)\<lparr>blk_next := block\<rparr>)
                in Some (st\<lparr>hdr := h4\<rparr>)))"

definition heap_free_list_remove :: "heap_state \<Rightarrow> u64 \<Rightarrow> heap_state" where
  "heap_free_list_remove st block =
     (let h = hdr st;
          h1 = (if blk_prev (h block) \<noteq> 0
                then h(blk_prev (h block) := (h (blk_prev (h block)))\<lparr>blk_next := blk_next (h block)\<rparr>)
                else h);
          fl = (if blk_prev (h block) \<noteq> 0 then free_list st else blk_next (h block));
          h2 = (if blk_next (h1 block) \<noteq> 0
                then h1(blk_next (h1 block) := (h1 (blk_next (h1 block)))\<lparr>blk_prev := blk_prev (h1 block)\<rparr>)
                else h1);
          h3 = h2(block := (h2 block)\<lparr>blk_next := 0, blk_prev := 0,
                                       blk_flags := blk_flags (h2 block) AND NOT BLOCK_FLAG_FREE\<rparr>)
      in st\<lparr>hdr := h3, free_list := fl\<rparr>)"

partial_function (option) best_fit :: "(u64 \<Rightarrow> block_header_t) \<Rightarrow> u64 \<Rightarrow> u64 \<Rightarrow> u64 \<Rightarrow> u64 option" where
  "best_fit h cb best sz =
     (if cb \<noteq> 0 then
        (if blk_flags (h cb) AND BLOCK_FLAG_FREE \<noteq> 0 \<and> ucast (blk_size (h cb)) \<ge> sz
            \<and> (best = 0 \<or> blk_size (h cb) < blk_size (h best))
         then (if ucast (blk_size (h cb)) = sz then Some cb
               else best_fit h (blk_next (h cb)) cb sz)
         else best_fit h (blk_next (h cb)) best sz)
      else Some best)"

declare best_fit.simps [code]

definition find_free_block :: "heap_state \<Rightarrow> u64 \<Rightarrow> u64 option" where
  "find_free_block st sz = best_fit (hdr st) (free_list st) 0 sz"

definition heap_split_block :: "heap_state \<Rightarrow> u64 \<Rightarrow> u64 \<Rightarrow> heap_state option" where
  "heap_split_block st block sz =
     (let remaining = ucast (blk_size (hdr st block)) - sz
      in if remaining \<ge> MIN_BLOCK_SIZE then
           (let new_block = block + sz;
                h = hdr st;
                h1 = h(new_block := (h new_block)\<lparr>blk_magic := HEAP_MAGIC, blk_size := ucast remaining,
                                                  blk_flags := 0, blk_next := blk_next (h block),
                                                  blk_prev := block\<rparr>);
                h2 = (if blk_next (h1 block) \<noteq> 0
                      then h1(blk_next (h1 block) := (h1 (blk_next (h1 block)))\<lparr>blk_prev := new_block\<rparr>)
                      else h1);
                h3 = h2(block := (h2 block)\<lparr>blk_next := new_block, blk_size := ucast sz\<rparr>)
            in heap_free_list_add (st\<lparr>hdr := h3\<rparr>) new_block)
         else Some st)"

definition heap_init :: "heap_state \<Rightarrow> heap_state" where
  "heap_init st =
     (case pmm_alloc_pages (heap_pmm st) 4 of
        (pmm', heap_phys) \<Rightarrow>
          if heap_phys = 0 then st\<lparr>heap_pmm := pmm'\<rparr>
          else
            let start = phys_to_virt heap_phys
            in st\<lparr>heap_pmm := pmm', heap_start := start, heap_end := start + 16 * 4096,
                   hdr := (hdr st)(start := \<lparr>blk_magic = HEAP_MAGIC, blk_size = 16 * 4096,
                                             blk_flags = BLOCK_FLAG_FREE, blk_next = 0, blk_prev = 0\<rparr>),
                   free_list := start, heap_initialized := True,
                   heap_stats := \<lparr>total_allocated = 0, current_usage = 0, peak_usage = 0,
                                   heap_alloc_count = 0\<rparr>\<rparr>)"

text \<open>
  The growth step of \<^verbatim>\<open>kmalloc\<close>: the number of pages the request needs is computed,
  but the order passed to the page allocator is \<^verbatim>\<open>pages_needed > 1 ? 2 : 0\<close>, and the
  new block's size comes from the same expression.
\<close>

definition heap_grow :: "heap_state \<Rightarrow> u64 \<Rightarrow> (heap_state \<times> u64) option" where
  "heap_grow st sz =
     (let pages0 = (ucast ((sz + 4095) div 4096) :: u32);
          pages_needed = (if pages0 < 4 then 4 else pages0);
          ord = (if pages_needed > 1 then 2 else 0 :: u32)
      in case pmm_alloc_pages (heap_pmm st) ord of
           (pmm', new_phys) \<Rightarrow>
             if new_phys = 0 then Some (st\<lparr>heap_pmm := pmm'\<rparr>, 0)
             else
               let block = phys_to_virt new_phys;
                   bsz = (push_bit (unat ord) 1 * 4096 :: u32);
                   st1 = st\<lparr>heap_pmm := pmm',
                            hdr := (hdr st)(block := (hdr st block)\<lparr>blk_magic := HEAP_MAGIC, blk_size := bsz,
                                                     blk_flags := 0, blk_next := 0, blk_prev := 0\<rparr>)\<rparr>
               in case heap_free_list_add st1 block of
                    None \<Rightarrow> None
                  | Some st2 \<Rightarrow>
                      Some (if block + ucast bsz > heap_end st2
                            then st2\<lparr>heap_end := block + ucast bsz\<rparr> else st2, block))"

text \<open>
  What \<^verbatim>\<open>memset(ptr, 0, len)\<close> does to the headers that lie in the zeroed range: a field
  of a header at address \<open>a\<close> is cleared when the field's address is in the range (fields
  are 4 or 8 bytes wide at offsets 0, 4, 8, 16 and 24, and all block addresses and sizes
  are multiples of 16).
\<close>

definition wipe_headers :: "(u64 \<Rightarrow> block_header_t) \<Rightarrow> u64 \<Rightarrow> u64 \<Rightarrow> (u64 \<Rightarrow> block_header_t)" where
  "wipe_headers h ptr len =
     (\<lambda>a. \<lparr>blk_magic = (if a - ptr < len then 0 else blk_magic (h a)),
           blk_size = (if a + 4 - ptr < len then 0 else blk_size (h a)),
           blk_flags = (if a + 8 - ptr < len then 0 else blk_flags (h a)),
           blk_next = (if a + 16 - ptr < len then 0 else blk_next (h a)),
           blk_prev = (if a + 24 - ptr < len then 0 else blk_prev (h a))\<rparr>)"

definition kmalloc :: "heap_state \<Rightarrow> u64 \<Rightarrow> u32 \<Rightarrow> (heap_state \<times> u64) option" where
  "kmalloc st n fl =
     (if \<not> heap_initialized st \<or> n = 0 then Some (st, 0)
      else
        let sz0 = ALIGN_UP16 n + HEADER_SIZE;
            sz = (if sz0 < MIN_BLOCK_SIZE then MIN_BLOCK_SIZE else sz0)
        in case find_free_block st sz of
             None \<Rightarrow> None
           | Some b0 \<Rightarrow>
              (case (if b0 = 0 then heap_grow st sz else Some (st, b0)) of
                 None \<Rightarrow> None
               | Some (st1, block) \<Rightarrow>
                   if block = 0 then Some (st1, 0)
                   else
                     (case heap_split_block (heap_free_list_remove st1 block) block sz of
                        None \<Rightarrow> None
                      | Some st2 \<Rightarrow>
                          let h = hdr st2;
                              st3 = st2\<lparr>hdr := h(block := (h block)\<lparr>blk_flags :=
                                                      blk_flags (h block) AND NOT BLOCK_FLAG_FREE\<rparr>)\<rparr>;
                              bs = (ucast (blk_size (hdr st3 block)) :: u64);
                              hs = heap_stats st3;
                              cur = current_usage hs + bs;
                              st4 = st3\<lparr>heap_stats := hs\<lparr>heap_alloc_count := heap_alloc_count hs + 1,
                                          total_allocated := total_allocated hs + bs,
                                          current_usage := cur,
                                          peak_usage := (if cur > peak_usage hs then cur else peak_usage hs)\<rparr>\<rparr>;
                              ptr = block + HEADER_SIZE;
                              st5 = (if fl AND GFP_ZERO \<noteq> 0
                                     then st4\<lparr>bytes := (\<lambda>a. if a - ptr < sz - HEADER_SIZE then 0
                                                             else bytes st4 a),
                                              hdr := wipe_headers (hdr st4) ptr (sz - HEADER_SIZE)\<rparr>
                                     else st4)
                          in Some (st5, ptr))))"

text \<open>
  An allocator state for the heap checks: 64 page frames in the DMA zone with two free
  blocks, one of order 4 at frame 16 and one of order 2 at frame 12, which ends where
  the other begins. \<^verbatim>\<open>heap_init\<close> takes the first; then 60000 bytes are allocated,
  filled with the byte 0xAA, and 20000 zeroed bytes are requested.
\<close>

definition pmm_heap_demo :: pmm_state where
  "pmm_heap_demo =
     \<lparr>zones = (\<lambda>z. if z = 0
                 then \<lparr>total_pages = 0, free_pages = 20,
                       free_lists = (\<lambda>ord. if ord = 4 then demo_list (Some 16)
                                     else if ord = 2 then demo_list (Some 12)
                                     else demo_list None)\<rparr>
                 else \<lparr>total_pages = 0, free_pages = 0, free_lists = (\<lambda>ord. demo_list None)\<rparr>),
      page_array = (\<lambda>i. if i = 16 then demo_page PAGE_FLAG_FREE 4
                     else if i = 12 then demo_page PAGE_FLAG_FREE 2
                     else demo_page PAGE_FLAG_RESERVED 0),
      page_count = 64,
      pmm_stats = \<lparr>total_memory = 262144, free_memory = 81920, used_memory = 0,
                   reserved_memory = 180224, kernel_memory = 4096, stat_page_count = 64,
                   alloc_count = 0, free_count = 0\<rparr>\<rparr>"

definition heap_demo0 :: heap_state where
  "heap_demo0 =
     heap_init \<lparr>free_list = 0, heap_start = 0, heap_end = 0, heap_initialized = False,
                heap_stats = \<lparr>total_allocated = 0, current_usage = 0, peak_usage = 0,
                                heap_alloc_count = 0\<rparr>,
                hdr = (\<lambda>a. \<lparr>blk_magic = 0, blk_size = 0, blk_flags = 0, blk_next = 0, blk_prev = 0\<rparr>),
                bytes = (\<lambda>a. 0), heap_pmm = pmm_heap_demo\<rparr>"

definition heap_demo1 :: "(heap_state \<times> u64) option" where
  "heap_demo1 = kmalloc heap_demo0 60000 0"

definition heap_demo2 :: "(heap_state \<times> u64) option" where
  "heap_demo2 =
     (let st = fst (the heap_demo1); p = snd (the heap_demo1)
      in kmalloc (st\<lparr>bytes := (\<lambda>a. if a - p < 60000 then 0xAA else bytes st a)\<rparr>) 20000 GFP_ZERO)"

section \<open>Results\<close>

lemma regs_advance_guest_rip: "regs (advance_guest_rip v) = regs v"
  by (simp add: advance_guest_rip_def Let_def)

lemma mask_leaf1_bit5: "\<not> bit (ecx (mask_leaf1 r)) 5"
  by (simp add: mask_leaf1_def Let_def CPUID_FEAT_ECX_VMX_def bit_simps)

lemma mask_leaf1_bit31: "\<not> bit (ecx (mask_leaf1 r)) 31"
  by (simp add: mask_leaf1_def Let_def CPUID_FEAT_ECX_VMX_def bit_simps)

text \<open>
  C9. On a CPUID exit with guest EAX = 1 the ECX value handed back to the guest has
  bit 5 (VMX) and bit 31 (hypervisor present) clear; with guest EAX = 0x40000000 the
  guest sees eax = 0x40000001 and the signature bytes "Pure", "Viso", "r" followed by
  three zero bytes in ebx, ecx, edx; with guest EAX = 0x40000001 all four registers are
  zero. This holds for every answer \<open>hw\<close> of the physical CPUID instruction.
\<close>

theorem handle_cpuid_guest_view:
  fixes hw :: "u32 \<Rightarrow> u32 \<Rightarrow> cpuid_result_t" and v :: vcpu_t
  defines "g \<equiv> regs (fst (handle_cpuid hw v))"
  shows "((ucast (rax (regs v)) :: u32) = 1 \<longrightarrow> \<not> bit (rcx g) 5 \<and> \<not> bit (rcx g) 31)
       \<and> ((ucast (rax (regs v)) :: u32) = 0x40000000 \<longrightarrow>
            rax g = 0x40000001 \<and> rbx g = 0x65727550 \<and> rcx g = 0x6F736956 \<and> rdx g = 0x72
            \<and> reg_chars (ucast (rbx g)) = ''Pure'' \<and> reg_chars (ucast (rcx g)) = ''Viso''
            \<and> reg_chars (ucast (rdx g)) = [CHR ''r'', CHR 0x00, CHR 0x00, CHR 0x00])
       \<and> ((ucast (rax (regs v)) :: u32) = 0x40000001 \<longrightarrow>
            rax g = 0 \<and> rbx g = 0 \<and> rcx g = 0 \<and> rdx g = 0)"
proof (intro conjI impI)
  assume a: "(ucast (rax (regs v)) :: u32) = 1"
  have "rcx g = ucast (ecx (mask_leaf1 (hw 1 (ucast (rcx (regs v))))))"
    using a by (simp add: g_def handle_cpuid_def Let_def regs_advance_guest_rip)
  then show "\<not> bit (rcx g) 5" "\<not> bit (rcx g) 31"
    using mask_leaf1_bit5 mask_leaf1_bit31 by (simp_all add: bit_simps)
next
  assume a: "(ucast (rax (regs v)) :: u32) = 0x40000000"
  show "rax g = 0x40000001" "rbx g = 0x65727550" "rcx g = 0x6F736956" "rdx g = 0x72"
    using a by (simp_all add: g_def handle_cpuid_def Let_def regs_advance_guest_rip)
  show "reg_chars (ucast (rbx g)) = ''Pure''" "reg_chars (ucast (rcx g)) = ''Viso''"
       "reg_chars (ucast (rdx g)) = [CHR ''r'', CHR 0x00, CHR 0x00, CHR 0x00]"
    using a by (simp_all add: g_def handle_cpuid_def Let_def regs_advance_guest_rip reg_chars_def
        char_of_def bit_simps)
next
  assume a: "(ucast (rax (regs v)) :: u32) = 0x40000001"
  show "rax g = 0" "rbx g = 0" "rcx g = 0" "rdx g = 0"
    using a by (simp_all add: g_def handle_cpuid_def Let_def regs_advance_guest_rip)
qed

theorem handle_cpuid_guest_view_witness:
  "(let hw = (\<lambda>a c. \<lparr>eax = 0x000306A9, ebx = 0x00100800, ecx = 0xFFFFFFFF, edx = 0xBFEBFBFF\<rparr>);
        v1 = \<lparr>regs = \<lparr>rax = 1, rbx = 0, rcx = 0, rdx = 0\<rparr>, vmcs = (\<lambda>f. 0)\<rparr>;
        v2 = \<lparr>regs = \<lparr>rax = 0x40000000, rbx = 0, rcx = 0, rdx = 0\<rparr>, vmcs = (\<lambda>f. 0)\<rparr>;
        v3 = \<lparr>regs = \<lparr>rax = 0x40000001, rbx = 0, rcx = 0, rdx = 0\<rparr>, vmcs = (\<lambda>f. 0)\<rparr>
    in (ucast (rax (regs v1)) :: u32) = 1
       \<and> rcx (regs (fst (handle_cpuid hw v1))) = 0x7FFFFFDF
       \<and> \<not> bit (rcx (regs (fst (handle_cpuid hw v1)))) 5
       \<and> \<not> bit (rcx (regs (fst (handle_cpuid hw v1)))) 31
       \<and> (ucast (rax (regs v2)) :: u32) = 0x40000000
       \<and> reg_chars (ucast (rbx (regs (fst (handle_cpuid hw v2))))) = ''Pure''
       \<and> (ucast (rax (regs v3)) :: u32) = 0x40000001
       \<and> rdx (regs (fst (handle_cpuid hw v3))) = 0)"
  using handle_cpuid_guest_view
          [of "\<lparr>regs = \<lparr>rax = 1, rbx = 0, rcx = 0, rdx = 0\<rparr>, vmcs = (\<lambda>f. 0)\<rparr>"
              "\<lambda>a c. \<lparr>eax = 0x000306A9, ebx = 0x00100800, ecx = 0xFFFFFFFF, edx = 0xBFEBFBFF\<rparr>"]
        handle_cpuid_guest_view
          [of "\<lparr>regs = \<lparr>rax = 0x40000000, rbx = 0, rcx = 0, rdx = 0\<rparr>, vmcs = (\<lambda>f. 0)\<rparr>"
              "\<lambda>a c. \<lparr>eax = 0x000306A9, ebx = 0x00100800, ecx = 0xFFFFFFFF, edx = 0xBFEBFBFF\<rparr>"]
        handle_cpuid_guest_view
          [of "\<lparr>regs = \<lparr>rax = 0x40000001, rbx = 0, rcx = 0, rdx = 0\<rparr>, vmcs = (\<lambda>f. 0)\<rparr>"
              "\<lambda>a c. \<lparr>eax = 0x000306A9, ebx = 0x00100800, ecx = 0xFFFFFFFF, edx = 0xBFEBFBFF\<rparr>"]
  by (simp add: Let_def handle_cpuid_def regs_advance_guest_rip mask_leaf1_def CPUID_FEAT_ECX_VMX_def)

text \<open>
  The guards of the PMM interface: \<^verbatim>\<open>pmm_alloc_pages\<close> returns 0 (NONE) for every
  order above 11 and leaves the state as it was, and \<^verbatim>\<open>pmm_free_pages\<close> returns the
  state unchanged when the address is 0, when its page-frame number is not below
  \<^verbatim>\<open>page_count\<close>, or when the descriptor of the addressed page has the FREE flag.
\<close>

lemma pmm_interface_guards:
  "(unat ord32 > 11 \<longrightarrow> pmm_alloc_pages s ord32 = (s, 0))
   \<and> pmm_free_pages s 0 ord32 = s
   \<and> (addr div 4096 \<ge> page_count s \<longrightarrow> pmm_free_pages s addr ord32 = s)
   \<and> (flags (page_array s (unat (addr div 4096))) AND PAGE_FLAG_FREE \<noteq> 0
        \<longrightarrow> pmm_free_pages s addr ord32 = s)"
  by (simp add: pmm_alloc_pages_def pmm_free_pages_def PMM_MAX_ORDER_def PAGE_SIZE_def Let_def)

lemma demo_alloc_fourth: "snd (pmm_alloc_pages (pmm_demo_alloc 3) 0) = 0x4000"
  by code_simp

lemma demo_alloc_fifth: "snd (pmm_alloc_pages (pmm_demo_alloc 4) 0) = 0x5000"
  by code_simp

lemma freed_block_head: "head (free_lists (zones pmm_demo_freed ZONE_DMA) 2) = Some 4"
  by code_simp

lemma freed_block_order: "order (page_array pmm_demo_freed 4) = 2"
  by code_simp

lemma freed_block_flags: "flags (page_array pmm_demo_freed 4) = PAGE_FLAG_FREE"
  by code_simp

lemma freed_single_head: "head (free_lists (zones pmm_demo_freed ZONE_DMA) 0) = None"
  by code_simp

lemma freed_free_pages: "free_pages (zones pmm_demo_freed ZONE_DMA) = 4"
  by code_simp

lemma freed_frame5_flags:
  "flags (page_array pmm_demo_freed 5) = PAGE_FLAG_PRESENT OR PAGE_FLAG_KERNEL"
  by code_simp

lemma freed_free_count: "free_count (pmm_stats pmm_demo_freed) = 2"
  by code_simp

lemma freed_free_memory: "free_memory (pmm_stats pmm_demo_freed) = 16384"
  by code_simp

lemma twice_single_head: "head (free_lists (zones pmm_demo_freed_twice ZONE_DMA) 0) = Some 5"
  by code_simp

lemma twice_free_pages: "free_pages (zones pmm_demo_freed_twice ZONE_DMA) = 5"
  by code_simp

lemma twice_frame5_flags: "flags (page_array pmm_demo_freed_twice 5) = PAGE_FLAG_FREE"
  by code_simp

lemma twice_free_count: "free_count (pmm_stats pmm_demo_freed_twice) = 3"
  by code_simp

lemma twice_free_memory: "free_memory (pmm_stats pmm_demo_freed_twice) = 20480"
  by code_simp

text \<open>
  C10 fails on the code where the addressed page is already free but its descriptor was
  never given the FREE flag. In the run on the demo state the fourth and fifth allocation
  return the frames 4 and 5 (addresses 0x4000 and 0x5000). Freeing 0x4000 and then 0x5000
  merges the two frames with the free block 6..7: \<^verbatim>\<open>coalesce_buddies\<close> puts the merged
  block on the order-2 list under its head, frame 4, and only that head is flagged, so
  frame 5 is free memory (inside the free block 4..7, the zone counts 4 free pages)
  while its descriptor still reads PRESENT|KERNEL. Freeing 0x5000 a second time is
  therefore not refused: frame 5 is put on the order-0 list as well, the zone counts 5
  free pages for 4 free frames, the descriptor flags change, and the statistics count a
  third free and 4096 more free bytes.
\<close>

theorem pmm_double_free_changes_state:
  "snd (pmm_alloc_pages (pmm_demo_alloc 3) 0) = 0x4000
   \<and> snd (pmm_alloc_pages (pmm_demo_alloc 4) 0) = 0x5000
   \<and> head (free_lists (zones pmm_demo_freed ZONE_DMA) 2) = Some 4
   \<and> order (page_array pmm_demo_freed 4) = 2
   \<and> flags (page_array pmm_demo_freed 4) = PAGE_FLAG_FREE
   \<and> free_pages (zones pmm_demo_freed ZONE_DMA) = 4
   \<and> flags (page_array pmm_demo_freed 5) = PAGE_FLAG_PRESENT OR PAGE_FLAG_KERNEL
   \<and> pmm_demo_freed_twice = pmm_free_pages pmm_demo_freed 0x5000 0
   \<and> pmm_demo_freed_twice \<noteq> pmm_demo_freed
   \<and> head (free_lists (zones pmm_demo_freed ZONE_DMA) 0) = None
   \<and> head (free_lists (zones pmm_demo_freed_twice ZONE_DMA) 0) = Some 5
   \<and> free_pages (zones pmm_demo_freed_twice ZONE_DMA) = 5
   \<and> flags (page_array pmm_demo_freed_twice 5) = PAGE_FLAG_FREE
   \<and> free_count (pmm_stats pmm_demo_freed) = 2
   \<and> free_count (pmm_stats pmm_demo_freed_twice) = 3
   \<and> free_memory (pmm_stats pmm_demo_freed) = 16384
   \<and> free_memory (pmm_stats pmm_demo_freed_twice) = 20480"
proof -
  have "pmm_demo_freed_twice \<noteq> pmm_demo_freed"
  proof
    assume "pmm_demo_freed_twice = pmm_demo_freed"
    then have "free_count (pmm_stats pmm_demo_freed_twice) = free_count (pmm_stats pmm_demo_freed)"
      by simp
    then show False
      by (simp add: freed_free_count twice_free_count)
  qed
  then show ?thesis
    by (simp add: demo_alloc_fourth demo_alloc_fifth freed_block_head freed_block_order
        freed_block_flags freed_single_head freed_free_pages freed_frame5_flags
        freed_free_count freed_free_memory twice_single_head twice_free_pages
        twice_frame5_flags twice_free_count twice_free_memory pmm_demo_freed_twice_def [symmetric])
qed

subsection \<open>Scheduler\<close>

text \<open>
  C5 as stated fails. The demo node is feasible, hosts the affinity VM (affinity score 75,
  a bonus of 6 by the specification's formula) and has component scores 75, 50, 100, 100:
  the source's total is 70, the stated total is 76.
\<close>

theorem scheduler_affinity_bonus_counterexample:
  "feasible (scheduler_score_node demo_sched demo_node (demo_req SCHED_POLICY_SPREAD))
   \<and> affinity_score (scheduler_score_node demo_sched demo_node (demo_req SCHED_POLICY_SPREAD)) = 75
   \<and> total_score (scheduler_score_node demo_sched demo_node (demo_req SCHED_POLICY_SPREAD)) = 70
   \<and> spec_total_score (scheduler_score_node demo_sched demo_node (demo_req SCHED_POLICY_SPREAD))
        SCHED_POLICY_SPREAD = 76"
  by (simp add: scheduler_score_node_def node_is_feasible_def demo_node_def demo_sched_def
      demo_req_def Let_def NODE_STATE_ONLINE_def SCHED_POLICY_SPREAD_def SCHED_POLICY_PACK_def
      WEIGHT_CPU_def WEIGHT_MEMORY_def WEIGHT_STORAGE_def WEIGHT_NETWORK_def
      affinity_step_def virt_vm_find_def spec_total_score_def)

text \<open>
  C5 amended. For every feasible node the total is the weighted sum
  \<open>(cpu\<cdot>40 + mem\<cdot>40 + storage\<cdot>10 + network\<cdot>10) / 100\<close> of the component scores, in
  unsigned 32-bit arithmetic, with no affinity term (the affinity score is reported in the
  score record only), and under PACK it is \<open>100 - \<close> that value. When the CPU and memory
  scores are at most 100 nothing wraps: the weighted sum is at most 100 and equals the
  formula over the integers.
\<close>

lemma scheduler_weighted_no_wrap:
  fixes c m st n :: u32
  assumes "c \<le> 100" "m \<le> 100" "st \<le> 100" "n \<le> 100"
  defines "w \<equiv> (c * 40 + m * 40 + st * 10 + n * 10) div 100"
  shows "uint w = (uint c * 40 + uint m * 40 + uint st * 10 + uint n * 10) div 100
         \<and> w \<le> 100 \<and> uint (100 - w) = 100 - uint w"
proof -
  have bounds: "uint c \<le> 100" "uint m \<le> 100" "uint st \<le> 100" "uint n \<le> 100"
    using assms(1-4) by (simp_all add: word_le_def)
  have sum: "uint (c * 40 + m * 40 + st * 10 + n * 10)
             = uint c * 40 + uint m * 40 + uint st * 10 + uint n * 10"
    using bounds by (simp add: uint_word_ariths)
  have w_int: "uint w = (uint c * 40 + uint m * 40 + uint st * 10 + uint n * 10) div 100"
    unfolding w_def by (simp add: uint_div sum)
  have w_le: "uint w \<le> 100"
    using bounds unfolding w_int by simp
  then have w_le': "w \<le> 100" by (simp add: word_le_def)
  have "uint (100 - w) = 100 - uint w"
    using w_le by (simp add: uint_sub_if')
  then show ?thesis using w_int w_le' by simp
qed

theorem scheduler_total_score:
  assumes "node_is_feasible sched node req"
  defines "sc \<equiv> scheduler_score_node sched node req"
  defines "w \<equiv> (cpu_score sc * 40 + memory_score sc * 40 + storage_score sc * 10
                   + network_score sc * 10) div 100"
  shows "feasible sc
       \<and> total_score sc = (if policy req = SCHED_POLICY_PACK then 100 - w else w)
       \<and> (cpu_score sc \<le> 100 \<and> memory_score sc \<le> 100 \<and> storage_score sc \<le> 100 \<longrightarrow>
            uint w = (uint (cpu_score sc) * 40 + uint (memory_score sc) * 40
                       + uint (storage_score sc) * 10 + uint (network_score sc) * 10) div 100
            \<and> w \<le> 100
            \<and> uint (total_score sc)
                = (if policy req = SCHED_POLICY_PACK then 100 - uint w else uint w))"
proof (intro conjI impI)
  show f: "feasible sc"
    using assms(1) by (simp add: sc_def scheduler_score_node_def Let_def)
  show t: "total_score sc = (if policy req = SCHED_POLICY_PACK then 100 - w else w)"
    using assms(1)
    by (simp add: sc_def w_def scheduler_score_node_def Let_def WEIGHT_CPU_def WEIGHT_MEMORY_def
        WEIGHT_STORAGE_def WEIGHT_NETWORK_def)
  assume b: "cpu_score sc \<le> 100 \<and> memory_score sc \<le> 100 \<and> storage_score sc \<le> 100"
  have n: "network_score sc \<le> 100"
    using assms(1) by (simp add: sc_def scheduler_score_node_def Let_def)
  note nw = scheduler_weighted_no_wrap [of "cpu_score sc" "memory_score sc" "storage_score sc"
      "network_score sc", folded w_def]
  show "uint w = (uint (cpu_score sc) * 40 + uint (memory_score sc) * 40
                       + uint (storage_score sc) * 10 + uint (network_score sc) * 10) div 100"
    using nw b n by simp
  show "w \<le> 100" using nw b n by simp
  show "uint (total_score sc) = (if policy req = SCHED_POLICY_PACK then 100 - uint w else uint w)"
    using nw b n t by simp
qed

theorem scheduler_total_score_witness:
  "node_is_feasible demo_sched demo_node (demo_req SCHED_POLICY_PACK)
   \<and> cpu_score (scheduler_score_node demo_sched demo_node (demo_req SCHED_POLICY_PACK)) = 75
   \<and> memory_score (scheduler_score_node demo_sched demo_node (demo_req SCHED_POLICY_PACK)) = 50
   \<and> storage_score (scheduler_score_node demo_sched demo_node (demo_req SCHED_POLICY_PACK)) = 100
   \<and> affinity_score (scheduler_score_node demo_sched demo_node (demo_req SCHED_POLICY_PACK)) = 75
   \<and> total_score (scheduler_score_node demo_sched demo_node (demo_req SCHED_POLICY_PACK)) = 30"
  using scheduler_total_score [of demo_sched demo_node "demo_req SCHED_POLICY_PACK"]
  by (simp add: scheduler_score_node_def node_is_feasible_def demo_node_def demo_sched_def
      demo_req_def Let_def NODE_STATE_ONLINE_def SCHED_POLICY_PACK_def
      WEIGHT_CPU_def WEIGHT_MEMORY_def WEIGHT_STORAGE_def WEIGHT_NETWORK_def
      affinity_step_def virt_vm_find_def)



subsection \<open>Raft\<close>

lemma become_follower_simps:
  "current_term (become_follower x t) = t"
  "voted_for (become_follower x t) = -1"
  "last_index (become_follower x t) = last_index x"
  "first_index (become_follower x t) = first_index x"
  "commit_index (become_follower x t) = commit_index x"
  "log (become_follower x t) = log x"
  "leader_id (become_follower x t) = leader_id x"
  "last_heartbeat (become_follower x t) = last_heartbeat x"
  "get_log_entry (become_follower x t) i = get_log_entry x i"
  "get_last_log_term (become_follower x t) = get_last_log_term x"
  by (simp_all add: become_follower_def get_log_entry_def get_last_log_term_def)


text \<open>
  C7 as stated fails. The demo follower (term 1, no vote cast, last entry: index 3, term 1)
  receives a vote request of term 1 from node 2 whose log ends at the same index 3 and
  term 1. The source grants the vote, although the candidate's last index is not strictly
  higher.
\<close>

theorem raft_vote_counterexample:
  "granted (snd (handle_vote_request demo_raft demo_vote_req 1000))
   \<and> \<not> spec_grants_vote demo_raft demo_vote_req"
  by (simp add: handle_vote_request_def spec_grants_vote_def demo_raft_def demo_vote_req_def
      get_last_log_term_def get_log_entry_def Let_def)

text \<open>
  C7 amended. A node grants a vote if and only if the request's term is at least its
  current term, it has not voted for another node in that term (its voted-for is unset or
  the candidate, or the request's term is higher than its own, in which case it first
  becomes a follower of that term and its vote is cleared), and the candidate's log is at
  least as up to date: a strictly higher last log term, or the same last term and a last
  index at least as high. Granting records the candidate in voted-for and resets the
  election timer (\<^verbatim>\<open>last_heartbeat\<close> becomes the current time stamp).
\<close>

theorem raft_vote_granted_iff:
  fixes raft :: raft_context_t and req :: raft_vote_request_t and tsc :: u64
  defines "r \<equiv> handle_vote_request raft req tsc"
  shows "(granted (snd r) \<longleftrightarrow>
            hdr_term (vreq_hdr req) \<ge> current_term raft
            \<and> (hdr_term (vreq_hdr req) > current_term raft \<or> voted_for raft = -1
               \<or> voted_for raft = from_node (vreq_hdr req))
            \<and> (last_log_term req > get_last_log_term raft
               \<or> (last_log_term req = get_last_log_term raft
                  \<and> last_log_index req \<ge> last_index raft)))
       \<and> (granted (snd r) \<longrightarrow>
            voted_for (fst r) = from_node (vreq_hdr req) \<and> last_heartbeat (fst r) = tsc
            \<and> current_term (fst r) = hdr_term (vreq_hdr req))"
proof (cases "hdr_term (vreq_hdr req) > current_term raft")
  case True
  then show ?thesis
    unfolding r_def handle_vote_request_def Let_def
    by (simp add: become_follower_simps) (auto simp: less_imp_le)
next
  case False
  then show ?thesis
    unfolding r_def handle_vote_request_def Let_def
    by auto
qed

theorem raft_vote_granted_iff_witness:
  "granted (snd (handle_vote_request demo_raft demo_vote_req 1000))
   \<and> voted_for (fst (handle_vote_request demo_raft demo_vote_req 1000)) = 2
   \<and> last_heartbeat (fst (handle_vote_request demo_raft demo_vote_req 1000)) = 1000"
  using raft_vote_granted_iff [of demo_raft demo_vote_req 1000]
  by (simp add: demo_raft_def demo_vote_req_def get_last_log_term_def get_log_entry_def)

text \<open>
  C2 as stated fails. The demo follower (last index 3, commit index 3) accepts an
  AppendEntries request that announces two entries after index 3 with leader commit 1.
  The handler answers success with match index 5, but its log still ends at index 3, so
  it holds no entry at index 4, and its commit index stays 3 rather than
  \<open>min 1 3 = 1\<close>.
\<close>

theorem raft_append_counterexample:
  "spec_append_accepts demo_raft demo_append_req
   \<and> success (snd (handle_append_request demo_raft demo_append_req 1000))
   \<and> match_index (snd (handle_append_request demo_raft demo_append_req 1000)) = 5
   \<and> get_log_entry (fst (handle_append_request demo_raft demo_append_req 1000)) 4 = None
   \<and> commit_index (fst (handle_append_request demo_raft demo_append_req 1000))
       \<noteq> min (leader_commit demo_append_req)
             (last_index (fst (handle_append_request demo_raft demo_append_req 1000)))"
  by (simp add: handle_append_request_def spec_append_accepts_def demo_raft_def
      demo_append_req_def get_log_entry_def Let_def RAFT_FOLLOWER_def RAFT_CANDIDATE_def)

text \<open>
  C2 amended. A node accepts an AppendEntries request exactly when the request's term is
  not lower than its current term and, for a non-zero \<^verbatim>\<open>prev_log_index\<close>, its log has
  an entry at that index with the matching term. On accept it answers success with match
  index \<^verbatim>\<open>prev_log_index + entry_count\<close>, records the sender as leader and restarts its
  election timer, and raises its commit index to \<open>min leader_commit last_index\<close> when
  \<^verbatim>\<open>leader_commit\<close> is above it; a commit index that is already at least
  \<^verbatim>\<open>leader_commit\<close> is kept. The handler reads no entries from the request (the source
  marks the step as simplified): the log and its two indices are left as they were.
\<close>

theorem raft_append_accept:
  fixes raft :: raft_context_t and req :: raft_append_request_t and tsc :: u64
  defines "r \<equiv> handle_append_request raft req tsc"
  shows "(success (snd r) \<longleftrightarrow>
            hdr_term (areq_hdr req) \<ge> current_term raft
            \<and> (prev_log_index req > 0 \<longrightarrow>
                 (\<exists>e. get_log_entry raft (prev_log_index req) = Some e
                      \<and> entry_term e = prev_log_term req)))
       \<and> (success (snd r) \<longrightarrow>
            match_index (snd r) = prev_log_index req + ucast (entry_count req)
            \<and> leader_id (fst r) = from_node (areq_hdr req) \<and> last_heartbeat (fst r) = tsc
            \<and> commit_index (fst r)
                = (if leader_commit req > commit_index raft
                   then min (leader_commit req) (last_index raft) else commit_index raft))
       \<and> log (fst r) = log raft \<and> first_index (fst r) = first_index raft
       \<and> last_index (fst r) = last_index raft"
proof -
  define raft1 where "raft1 = (if hdr_term (areq_hdr req) > current_term raft
                   then become_follower raft (hdr_term (areq_hdr req)) else raft)"
  define raft2 where "raft2 = raft1\<lparr>leader_id := from_node (areq_hdr req), last_heartbeat := tsc\<rparr>"
  define raft3 where "raft3 = (if raft_state raft2 = RAFT_CANDIDATE
                        then become_follower raft2 (hdr_term (areq_hdr req)) else raft2)"
  have r1: "log raft1 = log raft" "first_index raft1 = first_index raft"
       "last_index raft1 = last_index raft" "commit_index raft1 = commit_index raft"
       "get_log_entry raft1 i = get_log_entry raft i" for i
    by (simp_all add: raft1_def become_follower_simps)
  have t1: "hdr_term (areq_hdr req) < current_term raft1 \<longleftrightarrow> \<not> hdr_term (areq_hdr req) \<ge> current_term raft"
    by (auto simp: raft1_def become_follower_simps)
  have r3: "log raft3 = log raft" "first_index raft3 = first_index raft"
       "last_index raft3 = last_index raft" "commit_index raft3 = commit_index raft"
       "leader_id raft3 = from_node (areq_hdr req)" "last_heartbeat raft3 = tsc"
       "get_log_entry raft3 i = get_log_entry raft i" for i
    using r1 by (simp_all add: raft3_def raft2_def become_follower_simps get_log_entry_def)
  have r: "r = (if hdr_term (areq_hdr req) < current_term raft1
      then (raft1, \<lparr>aresp_hdr = \<lparr>from_node = raft_node_id raft1, hdr_term = current_term raft1\<rparr>, success = False, match_index = 0\<rparr>)
      else if \<not> (if prev_log_index req > 0
                  then (case get_log_entry raft3 (prev_log_index req) of
                          None \<Rightarrow> False
                        | Some e \<Rightarrow> entry_term e = prev_log_term req)
                  else True) 
      then (raft3, \<lparr>aresp_hdr = \<lparr>from_node = raft_node_id raft3, hdr_term = current_term raft3\<rparr>, success = False, match_index = 0\<rparr>)
      else (let raft4 =
                      (if leader_commit req > commit_index raft3
                       then (if leader_commit req > last_index raft3
                             then raft3\<lparr>commit_index := last_index raft3\<rparr>
                             else raft3\<lparr>commit_index := leader_commit req\<rparr>)
                       else raft3) in (raft4, \<lparr>aresp_hdr = \<lparr>from_node = raft_node_id raft4, hdr_term = current_term raft4\<rparr>, success = True, match_index = prev_log_index req + ucast (entry_count req)\<rparr>)))"
    unfolding r_def handle_append_request_def raft1_def raft2_def raft3_def Let_def by simp
  show ?thesis
    unfolding r t1 Let_def
    by (auto simp: r1 r3 min_def split: option.splits)
qed

theorem raft_append_accept_witness:
  "success (snd (handle_append_request demo_raft (demo_append_req\<lparr>leader_commit := 7\<rparr>) 1000))
   \<and> match_index (snd (handle_append_request demo_raft (demo_append_req\<lparr>leader_commit := 7\<rparr>) 1000)) = 5
   \<and> commit_index (fst (handle_append_request (demo_raft\<lparr>commit_index := 2\<rparr>)
                         (demo_append_req\<lparr>leader_commit := 7\<rparr>) 1000)) = 3
   \<and> last_index (fst (handle_append_request demo_raft (demo_append_req\<lparr>leader_commit := 7\<rparr>) 1000)) = 3"
  using raft_append_accept [of demo_raft "demo_append_req\<lparr>leader_commit := 7\<rparr>" 1000]
        raft_append_accept [of "demo_raft\<lparr>commit_index := 2\<rparr>" "demo_append_req\<lparr>leader_commit := 7\<rparr>" 1000]
  by (simp add: demo_raft_def demo_append_req_def get_log_entry_def)




subsection \<open>Storage pool\<close>

text \<open>
  C1, evaluated on the scenario of the kernel's storage self-test (fresh pool, one device,
  thin volume, write then read at offset 0). The first allocation of a fresh pool hands
  out extent 0, because the cursor \<^verbatim>\<open>next_extent\<close> starts at 0, while 0 in the extent
  map means "unallocated". The write succeeds and the bytes reach the device, but the
  map entry stays 0, so the read that follows takes the unmapped path and returns zeros.
\<close>

lemma thin_write_ok: "snd thin_after_write = 0"
  by code_simp

lemma thin_map_entry: "extent_map (snd (fst thin_after_write)) ! 0 = 0"
  by code_simp

lemma thin_device_bytes: "mem_read (memory (devices (fst (fst thin_after_write)) ! 0)) 0 5 = hello"
  by code_simp

lemma thin_read_back: "snd thin_after_read = ([0, 0, 0, 0, 0], 0)"
  by code_simp

theorem thin_volume_write_then_read_returns_zeros:
  "snd thin_after_write = 0
   \<and> extent_map (snd (fst thin_after_write)) ! 0 = 0
   \<and> mem_read (memory (devices (fst (fst thin_after_write)) ! 0)) 0 5 = hello
   \<and> snd thin_after_read = ([0, 0, 0, 0, 0], 0)
   \<and> fst (snd thin_after_read) \<noteq> hello"
  using thin_write_ok thin_map_entry thin_device_bytes thin_read_back
  by (simp add: hello_def)

lemma mem_block_write_frame:
  "dev_size (fst (mem_block_write dev off buf len)) = dev_size dev"
  "readonly (fst (mem_block_write dev off buf len)) = readonly dev"
  "mem_size (fst (mem_block_write dev off buf len)) = mem_size dev"
  by (simp_all add: block_write_def mem_submit_def Let_def)

lemma unat_ucast_32_64: "unat (ucast (w :: u32) :: u64) = unat w"
proof -
  have "unat w < 2 ^ 32" using unsigned_less [of w, where 'a = nat] by simp
  then have "unat w < 2 ^ 64" by simp
  then show ?thesis by (simp add: unsigned_ucast_eq take_bit_nat_eq_self)
qed

lemma no_wrap:
  assumes "unat off + unat len \<le> unat (sz :: u64)"
  shows "\<not> off + ucast (len :: u32) > sz"
proof -
  have "unat (ucast len :: u64) = unat len" by (rule unat_ucast_32_64)
  moreover have "unat off + unat len < 2 ^ 64"
    using assms unsigned_less [of sz, where 'a = nat] by simp
  ultimately have "unat (off + ucast len) = unat off + unat len"
    by (simp add: unat_add_lem [THEN iffD1])
  then show ?thesis using assms by (simp add: word_less_nat_alt)
qed

lemma mem_block_write_taken:
  assumes "takes_write dev off len"
  shows "mem_block_write dev off buf len
         = (dev\<lparr>memory := mem_write (memory dev) (unat off) buf (unat len)\<rparr>, 0)"
  using assms no_wrap [of off len "dev_size dev"] no_wrap [of off len "mem_size dev"]
  by (simp add: takes_write_def block_write_def mem_submit_def Let_def BLOCK_OP_WRITE_def BLOCK_OP_READ_def)

lemma mem_block_write_memory:
  "memory (fst (mem_block_write dev off buf len)) = memory dev
   \<or> memory (fst (mem_block_write dev off buf len)) = mem_write (memory dev) (unat off) buf (unat len)"
  by (simp add: block_write_def mem_submit_def Let_def BLOCK_OP_WRITE_def BLOCK_OP_READ_def)

lemma mem_read_write_same:
  "length buf = n \<Longrightarrow> mem_read (mem_write m off buf n) off n = buf"
  by (auto simp: mem_read_def mem_write_def intro: nth_equalityI)

lemma mem_read_write_apart:
  "off + n \<le> off' \<or> off' + n' \<le> off \<Longrightarrow> mem_read (mem_write m off' buf n') off n = mem_read m off n"
  by (auto simp: mem_read_def mem_write_def)

lemma write_at_length [simp]: "length (write_at buf len devs t) = length devs"
  by (simp add: write_at_def)

lemma write_at_takes:
  "d < length devs \<Longrightarrow> takes_write (write_at buf len devs t ! d) off l = takes_write (devs ! d) off l"
  by (cases "d = fst t") (simp_all add: write_at_def takes_write_def mem_block_write_frame)

lemma write_at_apart:
  assumes "apart len t (d, off)" "d < length devs"
  shows "mem_read (memory (write_at buf len devs t ! d)) (unat off) (unat len)
         = mem_read (memory (devs ! d)) (unat off) (unat len)"
proof (cases "fst t = d")
  case False
  then show ?thesis by (simp add: write_at_def)
next
  case True
  then have ap: "unat (snd t) + unat len \<le> unat off \<or> unat off + unat len \<le> unat (snd t)"
    using assms(1) by (auto simp: apart_def)
  show ?thesis
    using mem_block_write_memory [of "devs ! d" "snd t" buf len] True assms(2) ap
    by (auto simp: write_at_def mem_read_write_apart)
qed

lemma foldl_write_at_length [simp]: "length (foldl (write_at buf len) devs ts) = length devs"
  by (induction ts arbitrary: devs) simp_all

lemma foldl_write_at_apart:
  assumes "\<forall>t \<in> set ts. apart len t (d, off)" "d < length devs"
  shows "mem_read (memory (foldl (write_at buf len) devs ts ! d)) (unat off) (unat len)
         = mem_read (memory (devs ! d)) (unat off) (unat len)"
  using assms
proof (induction ts arbitrary: devs)
  case Nil
  then show ?case by simp
next
  case (Cons t ts)
  then show ?case by (simp add: write_at_apart)
qed

lemma foldl_write_at_target:
  assumes "k < length ts" "ts ! k = (d, off)" "d < length devs" "takes_write (devs ! d) off len"
    "\<forall>j < length ts. j \<noteq> k \<longrightarrow> apart len (ts ! j) (ts ! k)" "length buf = unat len"
  shows "mem_read (memory (foldl (write_at buf len) devs ts ! d)) (unat off) (unat len) = buf"
  using assms
proof (induction ts arbitrary: devs k)
  case Nil
  then show ?case by simp
next
  case (Cons t ts)
  show ?case
  proof (cases k)
    case 0
    then have t: "t = (d, off)" using Cons.prems(2) by simp
    have rest: "\<forall>t' \<in> set ts. apart len t' (d, off)"
    proof
      fix t' assume "t' \<in> set ts"
      then obtain j where j: "j < length ts" "ts ! j = t'" by (auto simp: in_set_conv_nth)
      then show "apart len t' (d, off)"
        using Cons.prems(5) [rule_format, of "Suc j"] 0 t by simp
    qed
    have "mem_read (memory (write_at buf len devs t ! d)) (unat off) (unat len) = buf"
      using Cons.prems(3,4,6) t
      by (simp add: write_at_def mem_block_write_taken mem_read_write_same)
    then show ?thesis
      using foldl_write_at_apart [OF rest, of "write_at buf len devs t" buf] Cons.prems(3)
      by simp
  next
    case (Suc k')
    have ap: "\<forall>j<length ts. j \<noteq> k' \<longrightarrow> apart len (ts ! j) (ts ! k')"
    proof (intro allI impI)
      fix j assume "j < length ts" "j \<noteq> k'"
      then show "apart len (ts ! j) (ts ! k')"
        using Cons.prems(5) [rule_format, of "Suc j"] Suc by simp
    qed
    show ?thesis
      using Cons.IH [of k' "write_at buf len devs t"] Cons.prems Suc ap
      by (simp add: write_at_takes)
  qed
qed

lemma foldl_write_replica:
  "foldl (write_replica pool eo buf len) devs (map f rs)
   = foldl (write_at buf len) devs
       (map (\<lambda>r. (unat (device_id (extents pool ! unat (f r))),
                   device_offset (extents pool ! unat (f r)) + eo)) rs)"
  by (induction rs arbitrary: devs) (simp_all add: write_replica_def write_at_def Let_def)

lemma volume_submit_write_mapped:
  assumes "op req = BLOCK_OP_WRITE" "online vol" "pool_state pool \<noteq> POOL_STATE_OFFLINE"
    "(ucast (offset req div POOL_EXTENT_SIZE) :: u32) < num_extents vol"
    "extent_map vol ! unat (ucast (offset req div POOL_EXTENT_SIZE) :: u32) \<noteq> 0"
  defines "ext \<equiv> extents pool ! unat (extent_map vol ! unat (ucast (offset req div POOL_EXTENT_SIZE) :: u32))"
  defines "eo \<equiv> offset req mod POOL_EXTENT_SIZE"
  shows "volume_submit (pool, vol) req =
     (let ret = snd (mem_block_write (devices pool ! unat (device_id ext)) (device_offset ext + eo) (buffer req) (req_length req)) in
     ((pool\<lparr>devices := foldl (write_at (buffer req) (req_length req)) (devices pool) (write_targets pool ext eo),
             write_ops := write_ops pool + 1,
             write_bytes := write_bytes pool + ucast (req_length req)\<rparr>, vol), req\<lparr>status := ret\<rparr>, ret))"
proof -
  have nle: "\<not> num_extents vol \<le> ucast (offset req div POOL_EXTENT_SIZE)"
    using assms(4) by simp
  have tg: "foldl (write_at (buffer req) (req_length req)) (devices pool) (write_targets pool ext eo)
      = foldl (write_replica pool eo (buffer req) (req_length req))
          ((devices pool)[unat (device_id ext) :=
             fst (mem_block_write (devices pool ! unat (device_id ext)) (device_offset ext + eo)
                    (buffer req) (req_length req))])
          (map (\<lambda>r. replica_extents ext ! r) [0..<unat (replica_count ext)])"
    by (simp add: write_targets_def foldl_write_replica write_at_def Let_def)
  show ?thesis
    unfolding tg
    using assms(1,2,3,5) nle
    by (simp add: volume_submit_def Let_def ext_def eo_def BLOCK_OP_WRITE_def BLOCK_OP_READ_def
        split: prod.splits)
qed


lemma mirror_online: "online (snd (mirror_pool ro))"
  by code_simp

lemma mirror_extent_map: "extent_map (snd (mirror_pool ro)) = [2]"
  by code_simp

lemma mirror_num_extents: "num_extents (snd (mirror_pool ro)) = 1"
  by code_simp

lemma mirror_vol_size: "vol_size (snd (mirror_pool ro)) = 4194304"
  by code_simp

lemma mirror_state: "pool_state (fst (mirror_pool ro)) = 2"
  by code_simp

lemma mirror_primary:
  "extents (fst (mirror_pool ro)) ! 2
   = \<lparr>ext_state = 1, volume_id = 2, volume_offset = 0, device_id = 0, device_offset = 8388608,
      replica_count = 1, replica_extents = [3, 0, 0]\<rparr>"
  by code_simp

lemma mirror_replica:
  "extents (fst (mirror_pool ro)) ! 3
   = \<lparr>ext_state = 1, volume_id = 0, volume_offset = 0, device_id = 1, device_offset = 0,
      replica_count = 0, replica_extents = [0, 0, 0]\<rparr>"
  by code_simp

lemma mirror_devices:
  "map (\<lambda>d. (dev_size d, readonly d, mem_size d)) (devices (fst (mirror_pool ro)))
   = [(12582912, False, 12582912), (4194304, ro, 4194304)]"
  by code_simp

lemma mirror_devices_length: "length (devices (fst (mirror_pool ro))) = 2"
  using arg_cong [OF mirror_devices [of ro], of length] by simp

lemma mirror_device0:
  "dev_size (devices (fst (mirror_pool ro)) ! 0) = 12582912
   \<and> \<not> readonly (devices (fst (mirror_pool ro)) ! 0)
   \<and> mem_size (devices (fst (mirror_pool ro)) ! 0) = 12582912"
  using arg_cong [OF mirror_devices [of ro], of "\<lambda>xs. xs ! 0"] mirror_devices_length [of ro]
  by simp

lemma mirror_device1:
  "dev_size (devices (fst (mirror_pool ro)) ! 1) = 4194304
   \<and> readonly (devices (fst (mirror_pool ro)) ! 1) = ro
   \<and> mem_size (devices (fst (mirror_pool ro)) ! 1) = 4194304"
  using arg_cong [OF mirror_devices [of ro], of "\<lambda>xs. xs ! 1"] mirror_devices_length [of ro]
  by simp

lemma demo_write_req_simps:
  "op demo_write_req = BLOCK_OP_WRITE"
  "req_length demo_write_req = 5" "buffer demo_write_req = hello"
  "(ucast (offset demo_write_req div POOL_EXTENT_SIZE) :: u32) = 0"
  "offset demo_write_req mod POOL_EXTENT_SIZE = 16"
  by (simp_all add: demo_write_req_def POOL_EXTENT_SIZE_def)

lemma mirror_submit:
  "volume_submit (mirror_pool ro) demo_write_req =
     (((fst (mirror_pool ro))
         \<lparr>devices := foldl (write_at hello 5) (devices (fst (mirror_pool ro))) [(0, 8388624), (1, 16)],
          write_ops := write_ops (fst (mirror_pool ro)) + 1,
          write_bytes := write_bytes (fst (mirror_pool ro)) + 5\<rparr>, snd (mirror_pool ro)),
      demo_write_req\<lparr>status := 0\<rparr>, 0)"
proof -
  let ?P = "fst (mirror_pool ro)" and ?V = "snd (mirror_pool ro)"
  have h3: "pool_state ?P \<noteq> POOL_STATE_OFFLINE"
    by (simp add: mirror_state POOL_STATE_OFFLINE_def)
  have h4: "(ucast (offset demo_write_req div POOL_EXTENT_SIZE) :: u32) < num_extents ?V"
    by (simp add: demo_write_req_simps mirror_num_extents)
  have h5: "extent_map ?V ! unat (ucast (offset demo_write_req div POOL_EXTENT_SIZE) :: u32) \<noteq> 0"
    by (simp add: demo_write_req_simps mirror_extent_map)
  have ts: "write_targets ?P (extents ?P ! 2) 16 = [(0, 8388624), (1, 16)]"
    by (simp add: write_targets_def mirror_primary mirror_replica)
  have tw: "takes_write (devices ?P ! 0) 8388624 5"
    using mirror_device0 [of ro] by (simp add: takes_write_def)
  note vs = volume_submit_write_mapped [of demo_write_req ?V ?P, OF demo_write_req_simps(1)
      mirror_online h3 h4 h5]
  show ?thesis
    using vs by (simp add: demo_write_req_simps mirror_extent_map mirror_primary
        ts [unfolded mirror_primary] mem_block_write_taken [OF tw] Let_def)
qed

lemma mirror_write:
  "mirror_after_write ro =
     (((fst (mirror_pool ro))
         \<lparr>devices := foldl (write_at hello 5) (devices (fst (mirror_pool ro))) [(0, 8388624), (1, 16)],
          write_ops := write_ops (fst (mirror_pool ro)) + 1,
          write_bytes := write_bytes (fst (mirror_pool ro)) + 5\<rparr>, snd (mirror_pool ro)), 0)"
  using mirror_submit [of ro]
  by (simp add: mirror_after_write_def block_write_def mirror_vol_size demo_write_req_def)

text \<open>
  C6 as stated fails. In the two-device pool with a read-only second device, the write to
  the mirrored volume reaches the primary and returns success, the write to the replica
  is refused by its device, and the pool state is still Online, not Degraded.
\<close>


theorem replica_failure_not_degraded_counterexample:
  "extent_map (snd (mirror_pool True)) ! 0 = 2
   \<and> replica_count (extents (fst (mirror_pool True)) ! 2) = 1
   \<and> replica_extents (extents (fst (mirror_pool True)) ! 2) ! 0 = 3
   \<and> device_id (extents (fst (mirror_pool True)) ! 3) = 1
   \<and> snd (mem_block_write (devices (fst (mirror_pool True)) ! 1)
             (device_offset (extents (fst (mirror_pool True)) ! 3) + 16) hello 5) = -1
   \<and> snd (mirror_after_write True) = 0
   \<and> pool_state (fst (fst (mirror_after_write True))) = POOL_STATE_ONLINE
   \<and> pool_state (fst (fst (mirror_after_write True))) \<noteq> POOL_STATE_DEGRADED"
  using mirror_device1 [of True]
  by (simp add: mirror_write mirror_state mirror_extent_map mirror_primary mirror_replica
      POOL_STATE_ONLINE_def POOL_STATE_DEGRADED_def block_write_def)

text \<open>
  C6 amended. A write request that \<^verbatim>\<open>volume_submit\<close> carries to a mapped extent writes
  the payload to the primary extent and then to every replica extent, at the same offset
  within the extent: every place whose device takes the write (not read-only, in range)
  and that no other place of the request overlaps holds the payload afterwards. The
  results of the replica writes are ignored: the pool state is left as it was (nothing
  sets it to Degraded), and the request completes with the status of the primary write.
\<close>

theorem volume_write_replicas:
  assumes "op req = BLOCK_OP_WRITE" "online vol" "pool_state pool \<noteq> POOL_STATE_OFFLINE"
    "(ucast (offset req div POOL_EXTENT_SIZE) :: u32) < num_extents vol"
    "extent_map vol ! unat (ucast (offset req div POOL_EXTENT_SIZE) :: u32) \<noteq> 0"
    "length (buffer req) = unat (req_length req)"
  defines "ext \<equiv> extents pool ! unat (extent_map vol ! unat (ucast (offset req div POOL_EXTENT_SIZE) :: u32))"
  defines "eo \<equiv> offset req mod POOL_EXTENT_SIZE"
  defines "ts \<equiv> write_targets pool ext eo"
  defines "r \<equiv> volume_submit (pool, vol) req"
  shows "pool_state (fst (fst r)) = pool_state pool
       \<and> snd (snd r) = snd (mem_block_write (devices pool ! unat (device_id ext))
                               (device_offset ext + eo) (buffer req) (req_length req))
       \<and> status (fst (snd r)) = snd (snd r)
       \<and> length ts = Suc (unat (replica_count ext))
       \<and> (\<forall>k < length ts.
             fst (ts ! k) < length (devices pool)
             \<and> takes_write (devices pool ! fst (ts ! k)) (snd (ts ! k)) (req_length req)
             \<and> (\<forall>j < length ts. j \<noteq> k \<longrightarrow> apart (req_length req) (ts ! j) (ts ! k))
             \<longrightarrow> mem_read (memory (devices (fst (fst r)) ! fst (ts ! k))) (unat (snd (ts ! k)))
                   (unat (req_length req)) = buffer req)"
proof -
  note vs = volume_submit_write_mapped [OF assms(1-5), folded ext_def eo_def ts_def r_def]
  have dv: "devices (fst (fst r))
            = foldl (write_at (buffer req) (req_length req)) (devices pool) ts"
    by (simp add: vs Let_def)
  have tgt: "mem_read (memory (devices (fst (fst r)) ! fst (ts ! k))) (unat (snd (ts ! k)))
                   (unat (req_length req)) = buffer req"
    if "k < length ts" "fst (ts ! k) < length (devices pool)"
       "takes_write (devices pool ! fst (ts ! k)) (snd (ts ! k)) (req_length req)"
       "\<forall>j < length ts. j \<noteq> k \<longrightarrow> apart (req_length req) (ts ! j) (ts ! k)" for k
    unfolding dv
    using foldl_write_at_target [of k ts "fst (ts ! k)" "snd (ts ! k)" "devices pool"
        "req_length req" "buffer req"] that assms(6)
    by simp
  have len: "length ts = Suc (unat (replica_count ext))"
    by (simp add: ts_def write_targets_def)
  show ?thesis
    using tgt len by (simp add: vs Let_def)
qed

theorem volume_write_replicas_witness:
  "op demo_write_req = BLOCK_OP_WRITE \<and> online (snd (mirror_pool False))
   \<and> pool_state (fst (mirror_pool False)) \<noteq> POOL_STATE_OFFLINE
   \<and> (ucast (offset demo_write_req div POOL_EXTENT_SIZE) :: u32) < num_extents (snd (mirror_pool False))
   \<and> extent_map (snd (mirror_pool False)) ! unat (ucast (offset demo_write_req div POOL_EXTENT_SIZE) :: u32) \<noteq> 0
   \<and> length (buffer demo_write_req) = unat (req_length demo_write_req)
   \<and> pool_state (fst (fst (volume_submit (mirror_pool False) demo_write_req)))
       = pool_state (fst (mirror_pool False))
   \<and> mem_read (memory (devices (fst (fst (volume_submit (mirror_pool False) demo_write_req))) ! 0))
        8388624 5 = hello
   \<and> mem_read (memory (devices (fst (fst (volume_submit (mirror_pool False) demo_write_req))) ! 1))
        16 5 = hello"
proof -
  let ?P = "fst (mirror_pool False)" and ?V = "snd (mirror_pool False)"
  note r5 = demo_write_req_simps
  have h1: "op demo_write_req = BLOCK_OP_WRITE" by (rule r5)
  have h2: "online ?V" by (rule mirror_online)
  have h3: "pool_state ?P \<noteq> POOL_STATE_OFFLINE"
    by (simp add: mirror_state POOL_STATE_OFFLINE_def)
  have h4: "(ucast (offset demo_write_req div POOL_EXTENT_SIZE) :: u32) < num_extents ?V"
    by (simp add: r5 mirror_num_extents)
  have h5: "extent_map ?V ! unat (ucast (offset demo_write_req div POOL_EXTENT_SIZE) :: u32) \<noteq> 0"
    by (simp add: r5 mirror_extent_map)
  have h6: "length (buffer demo_write_req) = unat (req_length demo_write_req)"
    by (simp add: r5 hello_def)
  have ext: "extents ?P ! unat (extent_map ?V ! unat (ucast (offset demo_write_req div POOL_EXTENT_SIZE) :: u32))
             = extents ?P ! 2"
    by (simp add: r5 mirror_extent_map)
  have ts: "write_targets ?P (extents ?P ! 2) 16 = [(0, 8388624), (1, 16)]"
    by (simp add: write_targets_def mirror_primary mirror_replica)
  have tw: "takes_write (devices ?P ! 0) 8388624 5" "takes_write (devices ?P ! 1) 16 5"
    using mirror_device0 [of False] mirror_device1 [of False] by (simp_all add: takes_write_def)
  have ap: "apart 5 (0, 8388624) (1, 16)" "apart 5 (1, 16) (0, 8388624)"
    by (simp_all add: apart_def)
  note T = volume_write_replicas [of demo_write_req ?V ?P, OF h1 h2 h3 h4 h5 h6]
  note ev = r5 mirror_extent_map mirror_primary ts [unfolded mirror_primary]
    mirror_devices_length [of False]
  have st: "pool_state (fst (fst (volume_submit (mirror_pool False) demo_write_req))) = pool_state ?P"
    using T by simp
  have t0: "mem_read (memory (devices (fst (fst (volume_submit (mirror_pool False) demo_write_req))) ! 0))
        8388624 5 = hello"
    using T [THEN conjunct2, THEN conjunct2, THEN conjunct2, THEN conjunct2, rule_format, of 0]
      tw ap
    by (simp add: ev less_Suc_eq)
  have t1: "mem_read (memory (devices (fst (fst (volume_submit (mirror_pool False) demo_write_req))) ! 1))
        16 5 = hello"
    using T [THEN conjunct2, THEN conjunct2, THEN conjunct2, THEN conjunct2, rule_format, of 1]
      tw ap
    by (simp add: ev less_Suc_eq)
  show ?thesis using h1 h2 h3 h4 h5 h6 st t0 t1 by simp
qed


subsection \<open>Page tables\<close>

text \<open>
  C3, evaluated on a fresh context: a 2 MiB range at virtual 0x200000 is mapped to
  physical 0x40000000 with the 2 MiB size hint, and the call returns 0. The translation
  of the first byte is right, but \<^verbatim>\<open>paging_get_phys\<close> adds only the low 12 bits of
  the virtual address to the frame of the entry that ends the walk, also when that entry
  is a huge page: 4096 bytes into the range the translation is again 0x40000000, where
  the claim requires 0x40001000. Unmapping the range does give translation 0.
\<close>

lemma huge_map_returns: "map_option snd demo_huge_map = Some 0"
  by code_simp

lemma huge_translate_first:
  "paging_get_phys (fst (the demo_huge_map)) (snd demo_paging) 0x200000 = 0x40000000"
  by code_simp

lemma huge_translate_second_page:
  "paging_get_phys (fst (the demo_huge_map)) (snd demo_paging) (0x200000 + 0x1000) = 0x40000000"
  by code_simp

lemma huge_translate_after_unmap:
  "paging_get_phys (fst (paging_unmap (fst (the demo_huge_map)) (snd demo_paging) 0x200000 0x200000))
     (snd demo_paging) (0x200000 + 0x1000) = 0"
  by code_simp

theorem huge_page_translate_drops_offset:
  "map_option snd demo_huge_map = Some 0
   \<and> paging_get_phys (fst (the demo_huge_map)) (snd demo_paging) 0x200000 = 0x40000000
   \<and> paging_get_phys (fst (the demo_huge_map)) (snd demo_paging) (0x200000 + 0x1000) = 0x40000000
   \<and> paging_get_phys (fst (the demo_huge_map)) (snd demo_paging) (0x200000 + 0x1000)
        \<noteq> 0x40000000 + 0x1000
   \<and> paging_get_phys (fst (paging_unmap (fst (the demo_huge_map)) (snd demo_paging) 0x200000 0x200000))
        (snd demo_paging) (0x200000 + 0x1000) = 0"
  using huge_map_returns huge_translate_first huge_translate_second_page huge_translate_after_unmap
  by simp

subsection \<open>Kernel heap\<close>

text \<open>
  C4, evaluated on a heap whose initial 64 KiB block starts where a free 4-page run of the
  page allocator ends. The first allocation of 60000 bytes is served from the initial
  block. For the second, of 20000 zeroed bytes, no free block fits and the heap grows: the
  page allocator is asked for order 2 whatever the request needs, the new 16384-byte block
  is used without a second fit check, and the split computes a wrapped-around remainder.
  The payload handed out is 16-byte aligned, but its 20000 bytes run past the end of the
  new block into the first allocation, which is still live, and the zeroing clears the
  first 3616 bytes of that allocation.
\<close>

lemma heap_first_ptr: "map_option snd heap_demo1 = Some 0xFFFF800000010020"
  by code_simp

lemma heap_second_ptr: "map_option snd heap_demo2 = Some 0xFFFF80000000C020"
  by code_simp

lemma heap_first_byte_cleared:
  "map_option (\<lambda>r. bytes (fst r) 0xFFFF800000010020) heap_demo2 = Some 0"
  by code_simp

theorem kmalloc_growth_overlaps_live_allocation:
  "map_option snd heap_demo1 = Some 0xFFFF800000010020
   \<and> map_option snd heap_demo2 = Some 0xFFFF80000000C020
   \<and> (0xFFFF80000000C020 :: u64) AND 15 = 0
   \<and> (0xFFFF80000000C020 :: u64) \<le> 0xFFFF800000010020
   \<and> (0xFFFF800000010020 :: u64) < 0xFFFF80000000C020 + 20000
   \<and> map_option (\<lambda>r. bytes (fst r) 0xFFFF800000010020) heap_demo2 = Some 0"
  using heap_first_ptr heap_second_ptr heap_first_byte_cleared
  by simp


end
